theory Spec2Isabelle
  imports Complex_Main
begin

section \<open>The PDE visualizer of code1.py\<close>

text \<open>
  The class \<open>PDEVisualizer\<close> produces sample data with numpy and draws it with
  matplotlib. The embedding follows the Python text: array values are lists of reals
  (numpy's float64 arithmetic is read as real arithmetic), Python integers are \<open>int\<close>,
  every exception the Python text or numpy can raise on the way is a value of
  \<open>py_error\<close>, and everything an operation does to the outside (the plotting engine,
  the filesystem, the console) is a change of an explicit state.
\<close>

subsection \<open>Exceptions and Python integer operations\<close>

datatype py_error =
  IndexError | ValueError | ZeroDivisionError | AttributeError | TypeError | OverflowError

text \<open>
  \<open>xs[i]\<close> for a Python integer \<open>i\<close> on a numpy array (or a list): an index below zero
  counts from the end. numpy turns an index that is out of range and lies in
  \<open>2^63 .. 2^64 - 1\<close> into an unsigned 64-bit value first and fails with OverflowError
  when it converts that to the signed index type; every other index out of range is an
  IndexError.
\<close>

definition py_index :: "'a list \<Rightarrow> int \<Rightarrow> py_error + 'a" where
  "py_index xs i =
     (if 0 \<le> i \<and> i < int (length xs) then Inr (xs ! nat i)
      else if i < 0 \<and> - int (length xs) \<le> i then Inr (xs ! nat (int (length xs) + i))
      else if 2 ^ 63 \<le> i \<and> i < 2 ^ 64 then Inl OverflowError
      else Inl IndexError)"

text \<open>\<open>a // b\<close> on Python integers: floor division, which is \<open>div\<close> on \<open>int\<close>.\<close>

definition py_floordiv :: "int \<Rightarrow> int \<Rightarrow> py_error + int" where
  "py_floordiv a b = (if b = 0 then Inl ZeroDivisionError else Inr (a div b))"

subsection \<open>Arrays\<close>

type_synonym vec = "real list"
type_synonym grid = "real list list"
type_synonym field = "real list list list"

text \<open>The shape of a two- and of a three-dimensional array held as nested lists.\<close>

definition has_shape2 :: "nat \<Rightarrow> nat \<Rightarrow> grid \<Rightarrow> bool" where
  "has_shape2 ny nx g = (length g = ny \<and> list_all (\<lambda>row. length row = nx) g)"

definition has_shape3 :: "nat \<Rightarrow> nat \<Rightarrow> nat \<Rightarrow> field \<Rightarrow> bool" where
  "has_shape3 nt ny nx f = (length f = nt \<and> list_all (has_shape2 ny nx) f)"

text \<open>
  \<open>np.linspace(start, stop, num)\<close>: a negative \<open>num\<close> is a ValueError, one sample is
  \<open>start\<close> alone, and otherwise sample \<open>k\<close> is \<open>start + k * step\<close> with
  \<open>step = (stop - start) / (num - 1)\<close>.
\<close>

definition linspace :: "real \<Rightarrow> real \<Rightarrow> int \<Rightarrow> py_error + vec" where
  "linspace start stop num =
     (if num < 0 then Inl ValueError
      else if num = 1 then Inr [start]
      else Inr (map (\<lambda>k. start + real k * ((stop - start) / real (nat num - 1))) [0..<nat num]))"

text \<open>\<open>np.meshgrid(x, y)\<close> with the default \<open>xy\<close> indexing: both results have one row
  per element of \<open>y\<close> and one column per element of \<open>x\<close>.\<close>

definition meshgrid :: "vec \<Rightarrow> vec \<Rightarrow> grid \<times> grid" where
  "meshgrid x y = (map (\<lambda>_. x) y, map (\<lambda>yv. map (\<lambda>_. yv) x) y)"

definition zeros3 :: "nat \<Rightarrow> nat \<Rightarrow> nat \<Rightarrow> field" where
  "zeros3 nt ny nx = replicate nt (replicate ny (replicate nx 0))"

text \<open>Elementwise operations on two arrays of one shape.\<close>

definition grid_map2 :: "(real \<Rightarrow> real \<Rightarrow> real) \<Rightarrow> grid \<Rightarrow> grid \<Rightarrow> grid" where
  "grid_map2 f A B = map2 (map2 f) A B"

text \<open>\<open>u.min()\<close> and \<open>u.max()\<close>: reductions over all elements; numpy raises a
  ValueError on an array without elements.\<close>

definition flat :: "field \<Rightarrow> real list" where
  "flat f = concat (concat f)"

definition amin :: "field \<Rightarrow> py_error + real" where
  "amin f = (case flat f of [] \<Rightarrow> Inl ValueError | a # as \<Rightarrow> Inr (fold min as a))"

definition amax :: "field \<Rightarrow> py_error + real" where
  "amax f = (case flat f of [] \<Rightarrow> Inl ValueError | a # as \<Rightarrow> Inr (fold max as a))"

subsection \<open>The visualizer object\<close>

record colormap =
  cmap_name :: string
  cmap_colors :: "string list"
  cmap_N :: nat

record visualizer =
  figsize :: "int \<times> int"
  dpi :: int
  custom_cmap :: colormap

definition setup_colormap :: "visualizer \<Rightarrow> visualizer" where
  "setup_colormap self =
     self\<lparr>custom_cmap :=
       \<lparr>cmap_name = ''custom_coolwarm'',
        cmap_colors = [''#2E86AB'', ''#A23B72'', ''#F18F01'', ''#C73E1D''],
        cmap_N = 256\<rparr>\<rparr>"

text \<open>\<open>__init__\<close>; the colormap attribute does not exist before \<open>setup_colormap\<close> has
  run, so the record starts with an empty one.\<close>

definition PDEVisualizer :: "int \<times> int \<Rightarrow> int \<Rightarrow> visualizer" where
  "PDEVisualizer fs d =
     setup_colormap
       \<lparr>figsize = fs, dpi = d,
        custom_cmap = \<lparr>cmap_name = [], cmap_colors = [], cmap_N = 0\<rparr>\<rparr>"

subsection \<open>generate_sample_data\<close>

text \<open>The two terms of the wave, as the loop body computes them over the whole grid.\<close>

definition wave_main :: "grid \<Rightarrow> grid \<Rightarrow> real \<Rightarrow> grid" where
  "wave_main X Y time =
     grid_map2 (\<lambda>x y. sin (x + time) * cos (y + 0.5 * time) * exp (- 0.1 * time)) X Y"

definition wave_extra :: "grid \<Rightarrow> grid \<Rightarrow> real \<Rightarrow> grid" where
  "wave_extra X Y time =
     grid_map2 (\<lambda>x y. 0.3 * sin (2 * x - time) * sin (y + time)) X Y"

text \<open>The loop \<open>for i, time in enumerate(t)\<close>: first \<open>u[i] = ...\<close>, then \<open>u[i] += ...\<close>.\<close>

fun fill_loop :: "(nat \<times> real) list \<Rightarrow> grid \<Rightarrow> grid \<Rightarrow> field \<Rightarrow> field" where
  "fill_loop [] X Y u = u"
| "fill_loop ((i, time) # rest) X Y u =
     (let u1 = u[i := wave_main X Y time];
          u2 = u1[i := grid_map2 (+) (u1 ! i) (wave_extra X Y time)]
      in fill_loop rest X Y u2)"

definition generate_sample_data ::
  "visualizer \<Rightarrow> int \<Rightarrow> int \<Rightarrow> int \<Rightarrow> py_error + (grid \<times> grid \<times> vec \<times> field)" where
  "generate_sample_data self nx ny nt =
     (case linspace 0 (2 * pi) nx of
        Inl e \<Rightarrow> Inl e
      | Inr x \<Rightarrow>
          (case linspace 0 (2 * pi) ny of
             Inl e \<Rightarrow> Inl e
           | Inr y \<Rightarrow>
               (let (X, Y) = meshgrid x y in
                (case linspace 0 2 nt of
                   Inl e \<Rightarrow> Inl e
                 | Inr t \<Rightarrow>
                     (let u = zeros3 (nat nt) (nat ny) (nat nx);
                          u' = fill_loop (enumerate 0 t) X Y u
                      in Inr (X, Y, t, u'))))))"

text \<open>The value the two assignments of one loop round leave in \<open>u[i]\<close>.\<close>

definition wave :: "grid \<Rightarrow> grid \<Rightarrow> real \<Rightarrow> grid" where
  "wave X Y time = grid_map2 (+) (wave_main X Y time) (wave_extra X Y time)"

subsection \<open>The plotting engine, the filesystem and the console\<close>

text \<open>
  matplotlib is outside the repository. The model keeps what the code asks of it: every
  call, in order, with the arguments the code passes (constant styling arguments such as
  font sizes, line colours and widths are left out), whether the engine accepts the call
  or raises. Axes are named by their row-major position in the figure made by the last
  \<open>Subplots\<close> call.

  Of the engine's refusals the model has two: \<open>plt.subplots\<close> raises ValueError for a
  grid without rows or columns, and \<open>contourf\<close> and \<open>contour\<close> raise TypeError unless
  \<open>Z\<close> is a two-dimensional array of at least 2 x 2 and \<open>X\<close> and \<open>Y\<close> have the
  shape of \<open>Z\<close>. Every other engine call is taken to be accepted, and so is every
  filesystem call: \<open>os.makedirs\<close> and the writers are not modelled as refusing a path
  (the empty directory name, an unwritable place).
\<close>

datatype extend_mode = ExtendNeither | ExtendBoth

text \<open>The three f-strings that build titles, kept unformatted.\<close>

datatype title_text =
    IndexTitle string int   \<comment> \<open>\<open>f'{title} (t = {time_idx})'\<close>\<close>
  | TimeTitle string real   \<comment> \<open>\<open>f'{title} (t = {t[frame]:.3f})'\<close>\<close>
  | SnapTitle real          \<comment> \<open>\<open>f't = {t[time_idx]:.3f}'\<close>\<close>

datatype call =
    Subplots int int "int \<times> int" int
      \<comment> \<open>rows, columns, figsize, dpi\<close>
  | Contourf nat grid grid grid int colormap "real option" "real option" extend_mode
      \<comment> \<open>axes, X, Y, Z, levels, cmap, vmin, vmax, extend\<close>
  | Contour nat grid grid grid int
  | Colorbar "nat list"
  | CbarLabel string
  | SetXLabel nat string
  | SetYLabel nat string
  | SetTitle nat title_text
  | Grid nat
  | AspectEqual nat
  | RemoveCollections nat
  | SetVisible nat bool
  | Suptitle string
  | TightLayout
  | FuncAnimation nat int
      \<comment> \<open>number of frames, interval\<close>
  | Savefig string int
  | SaveAnimation string int int
      \<comment> \<open>file name, fps, dpi\<close>

text \<open>
  The arrays and the visualizer are Python objects that the operations receive by
  reference; they are the \<open>mem\<close> components of the state, so that a write through
  one of the references would show as a change of the state.
\<close>

record state =
  mem_self :: visualizer
  mem_X :: grid
  mem_Y :: grid
  mem_t :: vec
  mem_u :: field
  fs_dirs :: "string set"
  fs_files :: "string set"
  console :: "string list"
  clock :: string
  plot :: "call list"

definition emit :: "call list \<Rightarrow> state \<Rightarrow> state" where
  "emit cs s = s\<lparr>plot := plot s @ cs\<rparr>"

definition print :: "string \<Rightarrow> state \<Rightarrow> state" where
  "print msg s = s\<lparr>console := console s @ [msg]\<rparr>"

definition savefig :: "string \<Rightarrow> state \<Rightarrow> state" where
  "savefig path s =
     emit [Savefig path (dpi (mem_self s))] (s\<lparr>fs_files := insert path (fs_files s)\<rparr>)"

definition makedirs :: "string \<Rightarrow> state \<Rightarrow> state" where
  "makedirs path s = s\<lparr>fs_dirs := insert path (fs_dirs s)\<rparr>"

text \<open>\<open>os.path.join(a, b)\<close> for a relative \<open>b\<close>.\<close>

definition path_join :: "string \<Rightarrow> string \<Rightarrow> string" where
  "path_join a b = (if a = [] \<or> last a = CHR ''/'' then a @ b else a @ ''/'' @ b)"

text \<open>What \<open>plt.subplots(rows, cols)\<close> returns: one Axes for a 1 x 1 grid, a
  one-dimensional array for a single row or column, a two-dimensional array otherwise.\<close>

datatype axes_val = OneAxes nat | Axes1D "nat list" | Axes2D "nat list list"

definition subplots_axes :: "nat \<Rightarrow> nat \<Rightarrow> axes_val" where
  "subplots_axes nrows ncols =
     (if nrows = 1 \<and> ncols = 1 then OneAxes 0
      else if nrows = 1 \<or> ncols = 1 then Axes1D [0..<nrows * ncols]
      else Axes2D (map (\<lambda>r. map (\<lambda>c. r * ncols + c) [0..<ncols]) [0..<nrows]))"

definition subplots ::
  "int \<Rightarrow> int \<Rightarrow> int \<times> int \<Rightarrow> int \<Rightarrow> state \<Rightarrow> state \<times> (py_error + axes_val)" where
  "subplots nrows ncols fsz d s =
     (if nrows < 1 \<or> ncols < 1 then (s, Inl ValueError)
      else (emit [Subplots nrows ncols fsz d] s, Inr (subplots_axes (nat nrows) (nat ncols))))"

text \<open>The argument check of \<open>contourf\<close> and \<open>contour\<close> for two-dimensional \<open>X\<close>,
  \<open>Y\<close>, \<open>Z\<close>. Nested lists whose rows differ in length are no array at all.\<close>

definition contour_accepts :: "grid \<Rightarrow> grid \<Rightarrow> grid \<Rightarrow> bool" where
  "contour_accepts X Y Z =
     (case Z of
        [] \<Rightarrow> False
      | row # _ \<Rightarrow>
          2 \<le> length Z \<and> 2 \<le> length row \<and>
          has_shape2 (length Z) (length row) Z \<and>
          has_shape2 (length Z) (length row) X \<and>
          has_shape2 (length Z) (length row) Y)"

definition contourf ::
  "nat \<Rightarrow> grid \<Rightarrow> grid \<Rightarrow> grid \<Rightarrow> int \<Rightarrow> colormap \<Rightarrow> real option \<Rightarrow> real option
   \<Rightarrow> extend_mode \<Rightarrow> state \<Rightarrow> state \<times> (py_error + unit)" where
  "contourf ax X Y Z lv cm lo hi ex s =
     (emit [Contourf ax X Y Z lv cm lo hi ex] s,
      if contour_accepts X Y Z then Inr () else Inl TypeError)"

definition contour ::
  "nat \<Rightarrow> grid \<Rightarrow> grid \<Rightarrow> grid \<Rightarrow> int \<Rightarrow> state \<Rightarrow> state \<times> (py_error + unit)" where
  "contour ax X Y Z lv s =
     (emit [Contour ax X Y Z lv] s,
      if contour_accepts X Y Z then Inr () else Inl TypeError)"

subsection \<open>create_static_contour\<close>

text \<open>\<open>if save_path:\<close> holds for a string that is not empty.\<close>

definition truthy :: "string option \<Rightarrow> bool" where
  "truthy p = (case p of None \<Rightarrow> False | Some str \<Rightarrow> str \<noteq> [])"

definition create_static_contour ::
  "int \<Rightarrow> string \<Rightarrow> string option \<Rightarrow> int \<Rightarrow> state \<Rightarrow> state \<times> (py_error + nat)" where
  "create_static_contour time_idx title save_path levels s =
     (case subplots 1 1 (figsize (mem_self s)) (dpi (mem_self s)) s of
        (s1, Inl e) \<Rightarrow> (s1, Inl e)
      | (s1, Inr axv) \<Rightarrow>
          (case axv of
             OneAxes ax \<Rightarrow>
               (case py_index (mem_u s1) time_idx of
                  Inl e \<Rightarrow> (s1, Inl e)
                | Inr z \<Rightarrow>
               (case contourf ax (mem_X s1) (mem_Y s1) z levels (custom_cmap (mem_self s1))
                       None None ExtendBoth s1 of
                  (s2, Inl e) \<Rightarrow> (s2, Inl e)
                | (s2, Inr _) \<Rightarrow>
               (case py_index (mem_u s2) time_idx of
                  Inl e \<Rightarrow> (s2, Inl e)
                | Inr z' \<Rightarrow>
               (case contour ax (mem_X s2) (mem_Y s2) z' levels s2 of
                  (s3, Inl e) \<Rightarrow> (s3, Inl e)
                | (s3, Inr _) \<Rightarrow>
                    (let s4 = emit
                           [Colorbar [ax], CbarLabel ''Solution Value'',
                            SetXLabel ax ''X'', SetYLabel ax ''Y'',
                            SetTitle ax (IndexTitle title time_idx),
                            Grid ax, AspectEqual ax, TightLayout] s3;
                         s5 = (if truthy save_path
                               then print (''Static plot saved to: '' @ the save_path)
                                      (savefig (the save_path) s4)
                               else s4)
                     in (s5, Inr ax))))))
           | _ \<Rightarrow> (s1, Inl AttributeError)))"

subsection \<open>create_animated_contour\<close>

text \<open>The closure \<open>animate\<close> with the variables it captures from the enclosing call;
  the arrays and the colormap are read through their references when a frame is drawn.\<close>

record animation =
  an_ax :: nat
  an_title :: string
  an_levels :: int
  an_vmin :: real
  an_vmax :: real
  an_frames :: nat
  an_interval :: int

definition animate :: "animation \<Rightarrow> int \<Rightarrow> state \<Rightarrow> state \<times> (py_error + unit)" where
  "animate a frame s =
     (let s1 = emit [RemoveCollections (an_ax a)] s in
      case py_index (mem_u s1) frame of
        Inl e \<Rightarrow> (s1, Inl e)
      | Inr z \<Rightarrow>
     (case contourf (an_ax a) (mem_X s1) (mem_Y s1) z (an_levels a)
             (custom_cmap (mem_self s1)) (Some (an_vmin a)) (Some (an_vmax a))
             ExtendNeither s1 of
        (s2, Inl e) \<Rightarrow> (s2, Inl e)
      | (s2, Inr _) \<Rightarrow>
     (case py_index (mem_u s2) frame of
        Inl e \<Rightarrow> (s2, Inl e)
      | Inr z' \<Rightarrow>
     (case contour (an_ax a) (mem_X s2) (mem_Y s2) z' (an_levels a) s2 of
        (s3, Inl e) \<Rightarrow> (s3, Inl e)
      | (s3, Inr _) \<Rightarrow>
     (case py_index (mem_t s3) frame of
        Inl e \<Rightarrow> (s3, Inl e)
      | Inr tv \<Rightarrow> (emit [SetTitle (an_ax a) (TimeTitle (an_title a) tv)] s3, Inr ()))))))"

text \<open>
  \<open>anim.save\<close>. Inside the writer's \<open>saving\<close> block matplotlib first draws the first
  frame once (its initial draw), then draws every frame of \<open>range(len(t))\<close> in order and
  grabs each one after it is drawn. An exception of the callback ends the block; on
  leaving it the writer writes out the frames grabbed so far, so a failure after the
  first grabbed frame leaves a shortened file behind. \<open>draw_frames\<close> is the loop, with
  the number of frames grabbed before the failing one.
\<close>

fun draw_frames ::
  "animation \<Rightarrow> nat list \<Rightarrow> nat \<Rightarrow> state \<Rightarrow> state \<times> (py_error \<times> nat + unit)" where
  "draw_frames a [] grabbed s = (s, Inr ())"
| "draw_frames a (f # fs) grabbed s =
     (case animate a (int f) s of
        (s1, Inl e) \<Rightarrow> (s1, Inl (e, grabbed))
      | (s1, Inr _) \<Rightarrow> draw_frames a fs (Suc grabbed) s1)"

definition save_animation ::
  "animation \<Rightarrow> string \<Rightarrow> state \<Rightarrow> state \<times> (py_error + unit)" where
  "save_animation a gif_name s =
     (case animate a 0 s of
        (s1, Inl e) \<Rightarrow> (s1, Inl e)
      | (s1, Inr _) \<Rightarrow>
          (case draw_frames a [0..<an_frames a] 0 s1 of
             (s2, Inl (e, grabbed)) \<Rightarrow>
               (if 0 < grabbed then s2\<lparr>fs_files := insert gif_name (fs_files s2)\<rparr> else s2,
                Inl e)
           | (s2, Inr _) \<Rightarrow>
               (emit [SaveAnimation gif_name 5 (dpi (mem_self s2))]
                  (s2\<lparr>fs_files := insert gif_name (fs_files s2)\<rparr>),
                Inr ())))"

definition create_animated_contour ::
  "string \<Rightarrow> bool \<Rightarrow> string \<Rightarrow> int \<Rightarrow> int \<Rightarrow> state \<Rightarrow> state \<times> (py_error + animation)" where
  "create_animated_contour title save_gif gif_name levels interval s =
     (case subplots 1 1 (figsize (mem_self s)) (dpi (mem_self s)) s of
        (s1, Inl e) \<Rightarrow> (s1, Inl e)
      | (s1, Inr axv) \<Rightarrow>
          (case axv of
             OneAxes ax \<Rightarrow>
               (case amin (mem_u s1) of
                  Inl e \<Rightarrow> (s1, Inl e)
                | Inr vmin \<Rightarrow>
               (case amax (mem_u s1) of
                  Inl e \<Rightarrow> (s1, Inl e)
                | Inr vmax \<Rightarrow>
               (case py_index (mem_u s1) 0 of
                  Inl e \<Rightarrow> (s1, Inl e)
                | Inr z \<Rightarrow>
               (case contourf ax (mem_X s1) (mem_Y s1) z levels (custom_cmap (mem_self s1))
                       (Some vmin) (Some vmax) ExtendNeither s1 of
                  (s2, Inl e) \<Rightarrow> (s2, Inl e)
                | (s2, Inr _) \<Rightarrow>
                    (let s3 = emit
                           [Colorbar [ax], CbarLabel ''Solution Value'',
                            SetXLabel ax ''X'', SetYLabel ax ''Y'',
                            AspectEqual ax, Grid ax] s2
                     in case py_index (mem_t s3) 0 of
                          Inl e \<Rightarrow> (s3, Inl e)
                        | Inr t0 \<Rightarrow>
                            (let a = \<lparr>an_ax = ax, an_title = title, an_levels = levels,
                                      an_vmin = vmin, an_vmax = vmax,
                                      an_frames = length (mem_t s3), an_interval = interval\<rparr>;
                                 s4 = emit
                                   [SetTitle ax (TimeTitle title t0),
                                    FuncAnimation (length (mem_t s3)) interval,
                                    TightLayout] s3
                             in if save_gif
                                then (case save_animation a gif_name s4 of
                                        (s5, Inl e) \<Rightarrow> (s5, Inl e)
                                      | (s5, Inr _) \<Rightarrow>
                                          (print (''Animation saved as: '' @ gif_name) s5,
                                           Inr a))
                                else (s4, Inr a)))))))
           | _ \<Rightarrow> (s1, Inl AttributeError)))"

subsection \<open>create_multiple_snapshots\<close>

text \<open>The three-way normalisation of \<open>axes\<close> to a flat sequence. A value of the wrong
  kind would fail where it is first used as an Axes or subscripted.\<close>

definition axes_list :: "int \<Rightarrow> int \<Rightarrow> int \<Rightarrow> axes_val \<Rightarrow> py_error + nat list" where
  "axes_list n_plots rows cols axv =
     (if n_plots = 1 then
        (case axv of OneAxes ax \<Rightarrow> Inr [ax] | _ \<Rightarrow> Inl AttributeError)
      else if rows = 1 \<and> cols > 1 then
        (case axv of Axes1D l \<Rightarrow> Inr l | OneAxes ax \<Rightarrow> Inl TypeError
         | Axes2D ll \<Rightarrow> Inl AttributeError)
      else
        (case axv of OneAxes ax \<Rightarrow> Inl AttributeError | Axes1D l \<Rightarrow> Inr l
         | Axes2D ll \<Rightarrow> Inr (concat ll)))"

text \<open>The loop \<open>for i, time_idx in enumerate(snapshot_times)\<close>.\<close>

fun snapshot_loop ::
  "(nat \<times> int) list \<Rightarrow> int \<Rightarrow> nat list \<Rightarrow> int \<Rightarrow> real \<Rightarrow> real \<Rightarrow> state
   \<Rightarrow> state \<times> (py_error + unit)" where
  "snapshot_loop [] n_plots axes levels vmin vmax s = (s, Inr ())"
| "snapshot_loop ((i, time_idx) # rest) n_plots axes levels vmin vmax s =
     (case (if n_plots > 1 then py_index axes (int i) else py_index axes 0) of
        Inl e \<Rightarrow> (s, Inl e)
      | Inr ax \<Rightarrow>
     (case py_index (mem_u s) time_idx of
        Inl e \<Rightarrow> (s, Inl e)
      | Inr z \<Rightarrow>
     (case contourf ax (mem_X s) (mem_Y s) z levels (custom_cmap (mem_self s))
             (Some vmin) (Some vmax) ExtendNeither s of
        (s1, Inl e) \<Rightarrow> (s1, Inl e)
      | (s1, Inr _) \<Rightarrow>
     (case py_index (mem_u s1) time_idx of
        Inl e \<Rightarrow> (s1, Inl e)
      | Inr z' \<Rightarrow>
     (case contour ax (mem_X s1) (mem_Y s1) z' levels s1 of
        (s2, Inl e) \<Rightarrow> (s2, Inl e)
      | (s2, Inr _) \<Rightarrow>
          (let s3 = emit [SetXLabel ax ''X'', SetYLabel ax ''Y''] s2
           in case py_index (mem_t s3) time_idx of
                Inl e \<Rightarrow> (s3, Inl e)
              | Inr tv \<Rightarrow>
                  snapshot_loop rest n_plots axes levels vmin vmax
                    (emit [SetTitle ax (SnapTitle tv), AspectEqual ax, Grid ax] s3)))))))"

definition default_snapshot_times :: "vec \<Rightarrow> int list" where
  "default_snapshot_times t =
     [0, int (length t) div 3, 2 * int (length t) div 3, int (length t) - 1]"

definition create_multiple_snapshots ::
  "int list option \<Rightarrow> string \<Rightarrow> int \<Rightarrow> state \<Rightarrow> state \<times> (py_error + nat list)" where
  "create_multiple_snapshots snapshot_times save_dir levels s =
     (let times = (case snapshot_times of
                     None \<Rightarrow> default_snapshot_times (mem_t s)
                   | Some l \<Rightarrow> l);
          s1 = makedirs save_dir s;
          n_plots = int (length times);
          cols = min 2 n_plots
      in case py_floordiv (n_plots + cols - 1) cols of
           Inl e \<Rightarrow> (s1, Inl e)
         | Inr rows \<Rightarrow>
             (case subplots rows cols
                     (fst (figsize (mem_self s1)) * cols div 2,
                      snd (figsize (mem_self s1)) * rows div 2)
                     (dpi (mem_self s1)) s1 of
                (s2, Inl e) \<Rightarrow> (s2, Inl e)
              | (s2, Inr axv) \<Rightarrow>
                  (case axes_list n_plots rows cols axv of
                     Inl e \<Rightarrow> (s2, Inl e)
                   | Inr axes \<Rightarrow>
                  (case amin (mem_u s2) of
                     Inl e \<Rightarrow> (s2, Inl e)
                   | Inr vmin \<Rightarrow>
                  (case amax (mem_u s2) of
                     Inl e \<Rightarrow> (s2, Inl e)
                   | Inr vmax \<Rightarrow>
                  (case snapshot_loop (enumerate 0 times) n_plots axes levels vmin vmax s2 of
                     (s3, Inl e) \<Rightarrow> (s3, Inl e)
                   | (s3, Inr _) \<Rightarrow>
                       (let s4 = emit
                              (map (\<lambda>i. SetVisible (axes ! i) False)
                                 [length times..<length axes]) s3;
                            s5 = emit
                              [Colorbar (take (length times) axes),
                               CbarLabel ''Solution Value'',
                               Suptitle ''PDE Solution Snapshots'', TightLayout] s4;
                            timestamp = clock s5;
                            save_path = path_join save_dir
                                          (''snapshots_'' @ timestamp @ ''.png'');
                            s6 = print (''Snapshots saved to: '' @ save_path)
                                   (savefig save_path s5)
                        in (s6, Inr axes))))))))"

subsection \<open>Reading the record of engine calls\<close>

text \<open>The calls an operation has added when it takes the state \<open>s\<close> to \<open>s'\<close>.\<close>

definition new_calls :: "state \<Rightarrow> state \<Rightarrow> call list" where
  "new_calls s s' = drop (length (plot s)) (plot s')"

text \<open>The colour limits \<open>(vmin, vmax)\<close> of every filled contour that was drawn.\<close>

fun color_scales :: "call list \<Rightarrow> (real option \<times> real option) list" where
  "color_scales [] = []"
| "color_scales (Contourf ax X Y Z lv cm lo hi ex # cs) = (lo, hi) # color_scales cs"
| "color_scales (c # cs) = color_scales cs"

text \<open>The slices handed to \<open>contourf\<close> and \<open>contour\<close>, in order.\<close>

fun drawn_slices :: "call list \<Rightarrow> grid list" where
  "drawn_slices [] = []"
| "drawn_slices (Contourf ax X Y Z lv cm lo hi ex # cs) = Z # drawn_slices cs"
| "drawn_slices (Contour ax X Y Z lv # cs) = Z # drawn_slices cs"
| "drawn_slices (c # cs) = drawn_slices cs"

text \<open>Rows and columns of every subplot grid that was made.\<close>

fun grids :: "call list \<Rightarrow> (int \<times> int) list" where
  "grids [] = []"
| "grids (Subplots r c fsz d # cs) = (r, c) # grids cs"
| "grids (c # cs) = grids cs"

text \<open>The subplot slots that were set invisible.\<close>

fun hidden :: "call list \<Rightarrow> nat list" where
  "hidden [] = []"
| "hidden (SetVisible ax vis # cs) = (if vis then hidden cs else ax # hidden cs)"
| "hidden (c # cs) = hidden cs"

text \<open>The paths of the images and animations that were written.\<close>

fun saved :: "call list \<Rightarrow> string list" where
  "saved [] = []"
| "saved (Savefig p d # cs) = p # saved cs"
| "saved (SaveAnimation p f d # cs) = p # saved cs"
| "saved (c # cs) = saved cs"

text \<open>The specification's colour scale: minimum and maximum over the entire field tensor.\<close>

definition global_scale :: "field \<Rightarrow> real option \<times> real option" where
  "global_scale f = (Some (Min (set (flat f))), Some (Max (set (flat f))))"

text \<open>The indices Python accepts for a sequence, and the element such an index selects.\<close>

definition in_range :: "'a list \<Rightarrow> int \<Rightarrow> bool" where
  "in_range xs i = (- int (length xs) \<le> i \<and> i < int (length xs))"

definition sel :: "'a list \<Rightarrow> int \<Rightarrow> 'a" where
  "sel xs i = xs ! nat (if i < 0 then int (length xs) + i else i)"

text \<open>The objects reached through the references are the same before and after.\<close>

definition same_objects :: "state \<Rightarrow> state \<Rightarrow> bool" where
  "same_objects s s' =
     (mem_self s' = mem_self s \<and> mem_X s' = mem_X s \<and> mem_Y s' = mem_Y s \<and>
      mem_t s' = mem_t s \<and> mem_u s' = mem_u s)"

text \<open>Calls that make no grid, hide nothing, save nothing, and whose filled contours all
  use the limits \<open>lo\<close> and \<open>hi\<close>.\<close>

definition scaled :: "real \<Rightarrow> real \<Rightarrow> call list \<Rightarrow> bool" where
  "scaled lo hi cs =
     (grids cs = [] \<and> hidden cs = [] \<and> saved cs = [] \<and>
      list_all (\<lambda>sc. sc = (Some lo, Some hi)) (color_scales cs))"

text \<open>The state \<open>s'\<close> is \<open>s\<close> with such calls added and nothing else changed.\<close>

definition only_calls :: "real \<Rightarrow> real \<Rightarrow> state \<Rightarrow> state \<Rightarrow> bool" where
  "only_calls lo hi s s' = (\<exists>cs. s' = emit cs s \<and> scaled lo hi cs)"

subsection \<open>Concrete states\<close>

text \<open>A state as \<open>main\<close> has it before the first rendering call: nothing drawn, written
  or printed yet.\<close>

definition fresh_state :: "visualizer \<Rightarrow> grid \<Rightarrow> grid \<Rightarrow> vec \<Rightarrow> field \<Rightarrow> state" where
  "fresh_state v X Y t u =
     \<lparr>mem_self = v, mem_X = X, mem_Y = Y, mem_t = t, mem_u = u,
      fs_dirs = {}, fs_files = {}, console = [], clock = ''20240101_120000'', plot = []\<rparr>"

text \<open>The smallest grid the engine draws: two rows and two columns.\<close>

definition grid_X :: grid where
  "grid_X = [[0, 1], [0, 1]]"

definition grid_Y :: grid where
  "grid_Y = [[0, 0], [1, 1]]"

text \<open>Two time steps; the first slice has the extremes 1 and 2, the whole field 0 and 5.\<close>

definition demo_state :: state where
  "demo_state =
     fresh_state (PDEVisualizer (12, 8) 100) grid_X grid_Y [0, 1]
       [[[1, 2], [2, 1]], [[0, 5], [3, 4]]]"

text \<open>Ten time steps, as in the specification's out-of-range example.\<close>

definition ten_step_state :: state where
  "ten_step_state =
     fresh_state (PDEVisualizer (12, 8) 100) grid_X grid_Y (map real [0..<10])
       (replicate 10 [[0, 1], [2, 3]])"

text \<open>Twenty-five time steps, the number \<open>main\<close> asks for; slice \<open>i\<close> holds the value
  \<open>i\<close> everywhere.\<close>

definition main_state :: state where
  "main_state =
     fresh_state (PDEVisualizer (12, 8) 100) grid_X grid_Y (map real [0..<25])
       (map (\<lambda>i. [[real i, real i], [real i, real i]]) [0..<25])"


section \<open>Auxiliary facts\<close>

subsection \<open>Sample data\<close>

lemma linspace_Inr:
  "0 \<le> num \<Longrightarrow> \<exists>xs. linspace a b num = Inr xs \<and> length xs = nat num"
  by (auto simp: linspace_def)

lemma linspace_nth:
  "linspace a b num = Inr xs \<Longrightarrow> k < nat num \<Longrightarrow>
   xs ! k = (if num = 1 then a else a + real k * ((b - a) / real_of_int (num - 1)))"
  by (auto simp: linspace_def split: if_splits)

lemma length_linspace: "linspace a b num = Inr xs \<Longrightarrow> length xs = nat num"
  by (auto simp: linspace_def split: if_splits)

lemma meshgrid_shape:
  "meshgrid x y = (X, Y) \<Longrightarrow> has_shape2 (length y) (length x) X \<and> has_shape2 (length y) (length x) Y"
  by (auto simp: meshgrid_def has_shape2_def list_all_iff)

lemma meshgrid_nth:
  "meshgrid x y = (X, Y) \<Longrightarrow> j < length y \<Longrightarrow> k < length x \<Longrightarrow> X ! j ! k = x ! k \<and> Y ! j ! k = y ! j"
  by (auto simp: meshgrid_def)

lemma length_fill_loop: "length (fill_loop its X Y u) = length u"
  by (induction its X Y u rule: fill_loop.induct) (auto simp: Let_def)

lemma fill_loop_nth:
  "k + length ts \<le> length u \<Longrightarrow> i < length u \<Longrightarrow>
   fill_loop (enumerate k ts) X Y u ! i =
     (if k \<le> i \<and> i < k + length ts then wave X Y (ts ! (i - k)) else u ! i)"
proof (induction ts arbitrary: k u)
  case Nil
  then show ?case by auto
next
  case (Cons a ts)
  let ?u2 = "u[k := wave X Y a]"
  have step: "fill_loop (enumerate k (a # ts)) X Y u = fill_loop (enumerate (Suc k) ts) X Y ?u2"
    using Cons.prems by (simp add: Let_def wave_def)
  have "fill_loop (enumerate (Suc k) ts) X Y ?u2 ! i =
     (if Suc k \<le> i \<and> i < Suc k + length ts then wave X Y (ts ! (i - Suc k)) else ?u2 ! i)"
    using Cons.prems by (intro Cons.IH) auto
  then show ?case
    unfolding step using Cons.prems
    by (auto simp: nth_Cons' nth_list_update)
qed

lemma wave_nth:
  "has_shape2 ny nx X \<Longrightarrow> has_shape2 ny nx Y \<Longrightarrow> j < ny \<Longrightarrow> k < nx \<Longrightarrow>
   wave X Y time ! j ! k =
     sin (X ! j ! k + time) * cos (Y ! j ! k + 0.5 * time) * exp (- 0.1 * time)
     + 0.3 * sin (2 * (X ! j ! k) - time) * sin (Y ! j ! k + time)"
  by (auto simp: wave_def wave_main_def wave_extra_def grid_map2_def has_shape2_def list_all_length)

lemma wave_shape:
  "has_shape2 ny nx X \<Longrightarrow> has_shape2 ny nx Y \<Longrightarrow> has_shape2 ny nx (wave X Y time)"
  by (auto simp: wave_def wave_main_def wave_extra_def grid_map2_def has_shape2_def list_all_length)


lemma generate_sample_data_Inr:
  assumes "0 \<le> nx" "0 \<le> ny" "0 \<le> nt"
  shows "\<exists>x y t. linspace 0 (2 * pi) nx = Inr x \<and> linspace 0 (2 * pi) ny = Inr y \<and>
           linspace 0 2 nt = Inr t \<and>
           generate_sample_data self nx ny nt =
             Inr (fst (meshgrid x y), snd (meshgrid x y), t,
                  fill_loop (enumerate 0 t) (fst (meshgrid x y)) (snd (meshgrid x y))
                    (zeros3 (nat nt) (nat ny) (nat nx)))"
proof -
  obtain x where x: "linspace 0 (2 * pi) nx = Inr x" using linspace_Inr[OF assms(1)] by blast
  obtain y where y: "linspace 0 (2 * pi) ny = Inr y" using linspace_Inr[OF assms(2)] by blast
  obtain t where t: "linspace 0 2 nt = Inr t" using linspace_Inr[OF assms(3)] by blast
  show ?thesis
    using x y t by (simp add: generate_sample_data_def Let_def case_prod_beta)
qed

lemma fill_loop_all:
  assumes "length t = length u" "i < length u"
  shows "fill_loop (enumerate 0 t) X Y u ! i = wave X Y (t ! i)"
  using fill_loop_nth[of 0 t u i X Y] assms by simp

subsection \<open>Indexing, reductions and the call record\<close>

lemma color_scales_append: "color_scales (as @ bs) = color_scales as @ color_scales bs"
  by (induction as rule: color_scales.induct) auto
lemma drawn_slices_append: "drawn_slices (as @ bs) = drawn_slices as @ drawn_slices bs"
  by (induction as rule: drawn_slices.induct) auto
lemma grids_append: "grids (as @ bs) = grids as @ grids bs"
  by (induction as rule: grids.induct) auto
lemma hidden_append: "hidden (as @ bs) = hidden as @ hidden bs"
  by (induction as rule: hidden.induct) auto
lemma saved_append: "saved (as @ bs) = saved as @ saved bs"
  by (induction as rule: saved.induct) auto

lemma amin_global:
  assumes "amin f = Inr v"
  shows "v = Min (set (flat f))"
proof (cases "flat f")
  case Nil
  with assms show ?thesis by (simp add: amin_def)
next
  case (Cons a as)
  have "Min (set (flat f)) = fold min as a"
    unfolding Cons by (rule Min.set_eq_fold)
  with assms Cons show ?thesis by (simp add: amin_def)
qed

lemma amax_global:
  assumes "amax f = Inr v"
  shows "v = Max (set (flat f))"
proof (cases "flat f")
  case Nil
  with assms show ?thesis by (simp add: amax_def)
next
  case (Cons a as)
  have "Max (set (flat f)) = fold max as a"
    unfolding Cons by (rule Max.set_eq_fold)
  with assms Cons show ?thesis by (simp add: amax_def)
qed

lemma amin_Inr: "flat f \<noteq> [] \<Longrightarrow> \<exists>v. amin f = Inr v"
  by (auto simp: amin_def split: list.splits)
lemma amax_Inr: "flat f \<noteq> [] \<Longrightarrow> \<exists>v. amax f = Inr v"
  by (auto simp: amax_def split: list.splits)

lemma py_index_in_range: "in_range xs i \<Longrightarrow> \<exists>v. py_index xs i = Inr v"
  by (auto simp: py_index_def in_range_def)

lemma py_index_sel: "in_range xs i \<Longrightarrow> py_index xs i = Inr (sel xs i)"
  by (auto simp: py_index_def in_range_def sel_def)

lemma py_index_negative:
  "- int (length xs) \<le> i \<Longrightarrow> i < 0 \<Longrightarrow> py_index xs i = Inr (xs ! nat (int (length xs) + i))"
  by (auto simp: py_index_def)

lemma py_index_IndexError:
  "int (length xs) \<le> i \<and> i < 2 ^ 63 \<or> i < - int (length xs) \<Longrightarrow> py_index xs i = Inl IndexError"
  by (auto simp: py_index_def)

lemma emit_Nil: "emit [] s = s"
  by (simp add: emit_def)

lemma emit_emit: "emit bs (emit as s) = emit (as @ bs) s"
  by (simp add: emit_def)

lemma mem_emit:
  "mem_u (emit cs s) = mem_u s" "mem_t (emit cs s) = mem_t s" "mem_X (emit cs s) = mem_X s"
  "mem_Y (emit cs s) = mem_Y s" "mem_self (emit cs s) = mem_self s"
  by (simp_all add: emit_def)

lemma same_objects_emit: "same_objects s (emit cs s)"
  by (simp add: same_objects_def emit_def)

lemma scaled_Nil: "scaled lo hi []"
  by (simp add: scaled_def)

lemma scaled_append: "scaled lo hi as \<Longrightarrow> scaled lo hi bs \<Longrightarrow> scaled lo hi (as @ bs)"
  by (simp add: scaled_def grids_append hidden_append saved_append color_scales_append)

lemma only_calls_refl: "only_calls lo hi s s"
  unfolding only_calls_def using emit_Nil scaled_Nil by metis

lemma only_calls_emit: "scaled lo hi cs \<Longrightarrow> only_calls lo hi s (emit cs s)"
  unfolding only_calls_def by blast

lemma only_calls_trans:
  "only_calls lo hi s s1 \<Longrightarrow> only_calls lo hi s1 s2 \<Longrightarrow> only_calls lo hi s s2"
  unfolding only_calls_def using emit_emit scaled_append by metis

lemma scaled_contourf: "scaled lo hi [Contourf ax X Y Z lv cm (Some lo) (Some hi) ex]"
  by (simp add: scaled_def)

lemma animate_effect: "only_calls (an_vmin a) (an_vmax a) s (fst (animate a frame s))"
  by (auto simp: animate_def contourf_def contour_def Let_def emit_emit mem_emit scaled_def
      split: sum.splits intro!: only_calls_emit)

lemma draw_frames_effect:
  "only_calls (an_vmin a) (an_vmax a) s (fst (draw_frames a fs g s))"
proof (induction fs arbitrary: g s)
  case Nil
  show ?case by (simp add: only_calls_refl)
next
  case (Cons f fs)
  obtain s1 r where a: "animate a (int f) s = (s1, r)"
    by (cases "animate a (int f) s")
  have 1: "only_calls (an_vmin a) (an_vmax a) s s1"
    using animate_effect[of a s "int f"] a by simp
  show ?case
  proof (cases r)
    case (Inl e)
    with a 1 show ?thesis by simp
  next
    case (Inr u)
    have "only_calls (an_vmin a) (an_vmax a) s1 (fst (draw_frames a fs (Suc g) s1))"
      by (rule Cons.IH)
    with 1 have "only_calls (an_vmin a) (an_vmax a) s (fst (draw_frames a fs (Suc g) s1))"
      by (rule only_calls_trans)
    with a Inr show ?thesis by simp
  qed
qed

lemma snapshot_loop_step:
  "only_calls lo hi s (fst (snapshot_loop (x # rest) n axes lv lo hi s)) \<or>
   (\<exists>s1. only_calls lo hi s s1 \<and>
         snapshot_loop (x # rest) n axes lv lo hi s = snapshot_loop rest n axes lv lo hi s1)"
proof -
  obtain i idx where x: "x = (i, idx)" by (cases x)
  let ?run = "snapshot_loop ((i, idx) # rest) n axes lv lo hi s"
  show ?thesis
  proof (cases "if n > 1 then py_index axes (int i) else py_index axes 0")
    case (Inl e)
    then have "fst ?run = s" by (auto split: if_splits)
    then show ?thesis unfolding x by (simp add: only_calls_refl)
  next
    case ax: (Inr ax)
    show ?thesis
    proof (cases "py_index (mem_u s) idx")
      case (Inl e)
      with ax have "fst ?run = s" by (auto split: if_splits)
      then show ?thesis unfolding x by (simp add: only_calls_refl)
    next
      case z: (Inr z)
      let ?f = "Contourf ax (mem_X s) (mem_Y s) z lv (custom_cmap (mem_self s))
                  (Some lo) (Some hi) ExtendNeither"
      let ?cs = "[?f, Contour ax (mem_X s) (mem_Y s) z lv, SetXLabel ax ''X'', SetYLabel ax ''Y'']"
      show ?thesis
      proof (cases "contour_accepts (mem_X s) (mem_Y s) z")
        case False
        with ax z have "fst ?run = emit [?f] s"
          by (auto simp: contourf_def split: if_splits)
        moreover have "scaled lo hi [?f]" by (simp add: scaled_def)
        ultimately show ?thesis unfolding x by (simp add: only_calls_emit)
      next
        case True
        have sc: "scaled lo hi ?cs" by (simp add: scaled_def)
        show ?thesis
        proof (cases "py_index (mem_t s) idx")
          case (Inl e)
          with ax z True have "fst ?run = emit ?cs s"
            by (auto simp: contourf_def contour_def Let_def emit_emit mem_emit split: if_splits)
          with sc show ?thesis unfolding x by (simp add: only_calls_emit)
        next
          case (Inr tv)
          let ?cs2 = "?cs @ [SetTitle ax (SnapTitle tv), AspectEqual ax, Grid ax]"
          from ax z True Inr have "?run = snapshot_loop rest n axes lv lo hi (emit ?cs2 s)"
            by (auto simp: contourf_def contour_def Let_def emit_emit mem_emit split: if_splits)
          moreover have "only_calls lo hi s (emit ?cs2 s)"
            by (rule only_calls_emit) (simp add: scaled_def)
          ultimately show ?thesis unfolding x by blast
        qed
      qed
    qed
  qed
qed

lemma snapshot_loop_effect:
  "only_calls lo hi s (fst (snapshot_loop its n axes lv lo hi s))"
proof (induction its arbitrary: s)
  case Nil
  show ?case by (simp add: only_calls_refl)
next
  case (Cons x rest)
  from snapshot_loop_step[of lo hi s x rest n axes lv] show ?case
  proof
    assume "only_calls lo hi s (fst (snapshot_loop (x # rest) n axes lv lo hi s))"
    then show ?thesis .
  next
    assume "\<exists>s1. only_calls lo hi s s1 \<and>
         snapshot_loop (x # rest) n axes lv lo hi s = snapshot_loop rest n axes lv lo hi s1"
    then obtain s1 where 1: "only_calls lo hi s s1"
      and 2: "snapshot_loop (x # rest) n axes lv lo hi s = snapshot_loop rest n axes lv lo hi s1"
      by blast
    have "only_calls lo hi s1 (fst (snapshot_loop rest n axes lv lo hi s1))"
      by (rule Cons.IH)
    with 1 show ?thesis unfolding 2 by (rule only_calls_trans)
  qed
qed

lemma animate_effect':
  "animate a frame s = (s', r) \<Longrightarrow> \<exists>cs. s' = emit cs s \<and> scaled (an_vmin a) (an_vmax a) cs"
  using animate_effect[of a s frame] by (simp add: only_calls_def)

lemma draw_frames_effect':
  "draw_frames a fs g s = (s', r) \<Longrightarrow> \<exists>cs. s' = emit cs s \<and> scaled (an_vmin a) (an_vmax a) cs"
  using draw_frames_effect[of a s fs g] by (simp add: only_calls_def)

lemma snapshot_loop_effect':
  "snapshot_loop its n axes lv lo hi s = (s', r) \<Longrightarrow> \<exists>cs. s' = emit cs s \<and> scaled lo hi cs"
  using snapshot_loop_effect[of lo hi s its n axes lv] by (simp add: only_calls_def)

lemma save_animation_effect':
  assumes "save_animation a gif_name s = (s', r)"
  shows "\<exists>cs. plot s' = plot s @ cs \<and> grids cs = [] \<and> hidden cs = [] \<and>
           list_all (\<lambda>sc. sc = (Some (an_vmin a), Some (an_vmax a))) (color_scales cs) \<and>
           same_objects s s'"
  using assms
  by (auto simp: save_animation_def emit_def same_objects_def scaled_def
        grids_append hidden_append color_scales_append
      split: sum.splits prod.splits if_splits
      dest!: animate_effect' draw_frames_effect')

lemma scaled_global:
  "scaled lo hi cs \<Longrightarrow> amin f = Inr lo \<Longrightarrow> amax f = Inr hi \<Longrightarrow>
   list_all (\<lambda>sc. sc = global_scale f) (color_scales cs)"
  by (auto simp: scaled_def global_scale_def dest!: amin_global amax_global)

lemma animated_effect:
  "\<exists>cs. plot (fst (create_animated_contour title save_gif gif_name levels interval s)) = plot s @ cs \<and>
        list_all (\<lambda>sc. sc = global_scale (mem_u s)) (color_scales cs)"
  by (auto simp: create_animated_contour_def subplots_def subplots_axes_def contourf_def
        Let_def emit_def print_def color_scales_append global_scale_def
      split: sum.splits prod.splits axes_val.splits if_splits
      dest!: save_animation_effect' amin_global amax_global)

lemma color_scales_hide: "color_scales (map (\<lambda>i. SetVisible (f i) False) xs) = []"
  by (induction xs) auto
lemma grids_hide: "grids (map (\<lambda>i. SetVisible (f i) False) xs) = []"
  by (induction xs) auto
lemma saved_hide: "saved (map (\<lambda>i. SetVisible (f i) False) xs) = []"
  by (induction xs) auto
lemma hidden_hide: "hidden (map (\<lambda>i. SetVisible (f i) False) xs) = map f xs"
  by (induction xs) auto

lemma snapshots_effect:
  "\<exists>cs. plot (fst (create_multiple_snapshots st save_dir levels s)) = plot s @ cs \<and>
        list_all (\<lambda>sc. sc = global_scale (mem_u s)) (color_scales cs)"
  by (auto simp: create_multiple_snapshots_def subplots_def Let_def emit_def print_def
        makedirs_def savefig_def color_scales_append color_scales_hide global_scale_def scaled_def
      split: sum.splits prod.splits
      dest!: snapshot_loop_effect' amin_global amax_global)

lemma new_calls_append: "plot s' = plot s @ cs \<Longrightarrow> new_calls s s' = cs"
  by (simp add: new_calls_def)

subsection \<open>The snapshot loop and the subplot grid\<close>

lemma snapshot_loop_ok:
  assumes "\<forall>i\<in>set ts. in_range (mem_u s) i \<and> in_range (mem_t s) i \<and>
                      contour_accepts (mem_X s) (mem_Y s) (sel (mem_u s) i)"
    and "k + length ts \<le> length axes" and "axes \<noteq> []"
  shows "\<exists>cs. snapshot_loop (enumerate k ts) n axes lv lo hi s = (emit cs s, Inr ()) \<and>
           scaled lo hi cs \<and>
           drawn_slices cs = concat (map (\<lambda>i. [sel (mem_u s) i, sel (mem_u s) i]) ts)"
  using assms
proof (induction ts arbitrary: k s)
  case Nil
  have "snapshot_loop (enumerate k []) n axes lv lo hi s = (emit [] s, Inr ())"
    by (simp add: emit_Nil)
  moreover have "drawn_slices [] = concat (map (\<lambda>i. [sel (mem_u s) i, sel (mem_u s) i]) [])"
    by simp
  ultimately show ?case using scaled_Nil by blast
next
  case (Cons a ts)
  have "k < length axes" and "0 < length axes"
    using Cons.prems(2,3) by simp_all
  then have "\<exists>ax. (if n > 1 then py_index axes (int k) else py_index axes 0) = Inr ax"
    by (simp add: py_index_def)
  then obtain ax where ax: "(if n > 1 then py_index axes (int k) else py_index axes 0) = Inr ax"
    by blast
  have z: "py_index (mem_u s) a = Inr (sel (mem_u s) a)"
    and tv: "py_index (mem_t s) a = Inr (sel (mem_t s) a)"
    and acc: "contour_accepts (mem_X s) (mem_Y s) (sel (mem_u s) a)"
    using Cons.prems(1) by (simp_all add: py_index_sel)
  let ?z = "sel (mem_u s) a"
  let ?cs1 = "[Contourf ax (mem_X s) (mem_Y s) ?z lv (custom_cmap (mem_self s))
                 (Some lo) (Some hi) ExtendNeither,
               Contour ax (mem_X s) (mem_Y s) ?z lv,
               SetXLabel ax ''X'', SetYLabel ax ''Y'',
               SetTitle ax (SnapTitle (sel (mem_t s) a)), AspectEqual ax, Grid ax]"
  let ?s2 = "emit ?cs1 s"
  have step: "snapshot_loop ((k, a) # enumerate (Suc k) ts) n axes lv lo hi s
                = snapshot_loop (enumerate (Suc k) ts) n axes lv lo hi ?s2"
    by (simp add: ax z tv acc contourf_def contour_def Let_def emit_emit mem_emit)
  have "\<exists>cs. snapshot_loop (enumerate (Suc k) ts) n axes lv lo hi ?s2 = (emit cs ?s2, Inr ()) \<and>
           scaled lo hi cs \<and>
           drawn_slices cs = concat (map (\<lambda>i. [sel (mem_u ?s2) i, sel (mem_u ?s2) i]) ts)"
    using Cons.prems by (intro Cons.IH) (simp_all only: mem_emit, simp_all)
  then obtain cs where cs:
    "snapshot_loop (enumerate (Suc k) ts) n axes lv lo hi ?s2 = (emit cs ?s2, Inr ())"
    "scaled lo hi cs"
    "drawn_slices cs = concat (map (\<lambda>i. [sel (mem_u s) i, sel (mem_u s) i]) ts)"
    unfolding mem_emit by blast
  have 1: "snapshot_loop (enumerate k (a # ts)) n axes lv lo hi s = (emit (?cs1 @ cs) s, Inr ())"
    unfolding enumerate_simps step cs(1) by (simp only: emit_emit)
  have 2: "scaled lo hi (?cs1 @ cs)"
    by (intro scaled_append cs(2)) (simp add: scaled_def)
  have 3: "drawn_slices (?cs1 @ cs)
             = concat (map (\<lambda>i. [sel (mem_u s) i, sel (mem_u s) i]) (a # ts))"
    unfolding drawn_slices_append cs(3) by simp
  from 1 2 3 show ?case by blast
qed

lemma concat_rows: "concat (map (\<lambda>r. map (\<lambda>c. r * m + c) [0..<m]) [0..<k]) = [0..<k * m]"
proof (induction k)
  case 0
  show ?case by simp
next
  case (Suc k)
  have a: "map (\<lambda>c. k * m + c) [0..<m] = [k * m..<k * m + m]"
    using map_add_upt[of "k * m" m] by (simp add: add.commute)
  have b: "[0..<k * m + m] = [0..<k * m] @ [k * m..<k * m + m]"
    by (rule upt_add_eq_append) simp
  have "concat (map (\<lambda>r. map (\<lambda>c. r * m + c) [0..<m]) [0..<Suc k])
          = concat (map (\<lambda>r. map (\<lambda>c. r * m + c) [0..<m]) [0..<k]) @ map (\<lambda>c. k * m + c) [0..<m]"
    by simp
  also have "\<dots> = [0..<k * m] @ [k * m..<k * m + m]"
    by (simp only: Suc.IH a)
  also have "\<dots> = [0..<Suc k * m]"
    using b by (simp add: add.commute)
  finally show ?case .
qed


lemma rows_cases:
  fixes n :: int
  assumes "1 \<le> n"
  shows "(n = 1 \<and> min 2 n = 1 \<and> (n + min 2 n - 1) div min 2 n = 1) \<or>
         (n = 2 \<and> min 2 n = 2 \<and> (n + min 2 n - 1) div min 2 n = 1) \<or>
         (3 \<le> n \<and> min 2 n = 2 \<and> 2 \<le> (n + min 2 n - 1) div min 2 n)"
proof -
  consider "n = 1" | "n = 2" | "3 \<le> n" using assms by linarith
  then show ?thesis
  proof cases
    case 1
    then show ?thesis by simp
  next
    case 2
    then show ?thesis by simp
  next
    case 3
    then have "min 2 n = 2" by simp
    moreover have "2 \<le> (n + 1) div 2" using 3 by linarith
    ultimately show ?thesis using 3 by simp
  qed
qed

lemma rows_ceiling:
  fixes n :: nat
  assumes "1 \<le> n"
  shows "(int n + min 2 (int n) - 1) div min 2 (int n) = \<lceil>real n / real (min 2 n)\<rceil>"
proof (cases "n = 1")
  case True
  then show ?thesis by simp
next
  case False
  with assms have m: "min 2 n = 2" "min 2 (int n) = 2" by simp_all
  have "\<lceil>real n / 2\<rceil> = - (- int n div 2)"
    using ceiling_divide_eq_div[of "int n" 2] by simp
  also have "\<dots> = (int n + 1) div 2" by linarith
  finally show ?thesis using m by simp
qed

lemma axes_list_ok:
  fixes n :: int
  assumes "1 \<le> n"
  shows "axes_list n ((n + min 2 n - 1) div min 2 n) (min 2 n)
           (subplots_axes (nat ((n + min 2 n - 1) div min 2 n)) (nat (min 2 n)))
         = Inr [0..<nat ((n + min 2 n - 1) div min 2 n) * nat (min 2 n)]"
proof -
  define cols where "cols = min 2 n"
  define rows where "rows = (n + cols - 1) div cols"
  consider "n = 1" "cols = 1" "rows = 1" | "n = 2" "cols = 2" "rows = 1"
    | "3 \<le> n" "cols = 2" "2 \<le> rows"
    using rows_cases[OF assms(1)] unfolding cols_def rows_def by blast
  then have "axes_list n rows cols (subplots_axes (nat rows) (nat cols))
               = Inr [0..<nat rows * nat cols]"
  proof cases
    case 1
    then show ?thesis by (simp add: axes_list_def subplots_axes_def)
  next
    case 2
    then show ?thesis by (simp add: axes_list_def subplots_axes_def)
  next
    case 3
    then have r: "nat rows \<noteq> 1" "nat cols = 2" "n \<noteq> 1" "rows \<noteq> 1" by simp_all
    have "axes_list n rows cols (subplots_axes (nat rows) (nat cols))
            = Inr (concat (map (\<lambda>r. map (\<lambda>c. r * 2 + c) [0..<2]) [0..<nat rows]))"
      unfolding axes_list_def subplots_axes_def using r by simp
    then show ?thesis
      unfolding concat_rows using r by simp
  qed
  then show ?thesis unfolding rows_def cols_def .
qed

lemma snapshots_run:
  fixes s :: state and save_dir :: string and idxs :: "int list"
  assumes ne: "idxs \<noteq> []"
    and n_def: "n = int (length idxs)"
    and cols_def: "cols = min 2 n"
    and rows_def: "rows = (n + cols - 1) div cols"
    and s2_def: "s2 = emit [Subplots rows cols
                          (fst (figsize (mem_self s)) * cols div 2,
                           snd (figsize (mem_self s)) * rows div 2) (dpi (mem_self s))]
                    (makedirs save_dir s)"
    and axes_def: "axes = [0..<nat rows * nat cols]"
  shows "create_multiple_snapshots (Some idxs) save_dir levels s =
           (case amin (mem_u s) of
              Inl e \<Rightarrow> (s2, Inl e)
            | Inr vmin \<Rightarrow>
           (case amax (mem_u s) of
              Inl e \<Rightarrow> (s2, Inl e)
            | Inr vmax \<Rightarrow>
           (case snapshot_loop (enumerate 0 idxs) n axes levels vmin vmax s2 of
              (s3, Inl e) \<Rightarrow> (s3, Inl e)
            | (s3, Inr _) \<Rightarrow>
                (let s5 = emit
                       (map (\<lambda>i. SetVisible (axes ! i) False) [length idxs..<length axes] @
                        [Colorbar (take (length idxs) axes), CbarLabel ''Solution Value'',
                         Suptitle ''PDE Solution Snapshots'', TightLayout]) s3;
                     save_path = path_join save_dir (''snapshots_'' @ clock s5 @ ''.png'')
                 in (print (''Snapshots saved to: '' @ save_path) (savefig save_path s5),
                     Inr axes)))))"
proof -
  have n1: "1 \<le> n" using ne unfolding n_def by (cases idxs) simp_all
  have c: "cols \<noteq> 0" "\<not> cols < 1" "\<not> rows < 1"
    using rows_cases[OF n1] unfolding cols_def rows_def by auto
  have ax: "axes_list n rows cols (subplots_axes (nat rows) (nat cols)) = Inr axes"
    unfolding axes_def rows_def cols_def by (rule axes_list_ok[OF n1])
  have mm: "mem_self (makedirs save_dir s) = mem_self s" "mem_u (makedirs save_dir s) = mem_u s"
    by (simp_all add: makedirs_def)
  have fd: "py_floordiv (n + cols - 1) cols = Inr rows"
    using c by (simp add: py_floordiv_def rows_def)
  have sp: "subplots rows cols
              (fst (figsize (mem_self s)) * cols div 2, snd (figsize (mem_self s)) * rows div 2)
              (dpi (mem_self s)) (makedirs save_dir s) = (s2, Inr (subplots_axes (nat rows) (nat cols)))"
    using c by (simp add: subplots_def s2_def)
  have mu: "mem_u s2 = mem_u s" by (simp add: s2_def mem_emit mm)
  show ?thesis
    unfolding create_multiple_snapshots_def
    by (simp add: Let_def n_def[symmetric] cols_def[symmetric] fd mm sp ax mu emit_emit
          split: sum.splits prod.splits)
qed


lemma rows_fit:
  fixes n :: int
  assumes "1 \<le> n"
  shows "n \<le> ((n + min 2 n - 1) div min 2 n) * min 2 n"
proof (cases "n = 1")
  case True
  then show ?thesis by simp
next
  case False
  with assms have m: "min 2 n = 2" by simp
  have "n \<le> ((n + 1) div 2) * 2" by linarith
  then show ?thesis unfolding m by simp
qed

lemma map_nth_upt: "n \<le> m \<Longrightarrow> map (\<lambda>i. [0..<m] ! i) [n..<m] = [n..<m]"
  by (rule nth_equalityI) simp_all


lemma snapshots_layout:
  fixes s :: state and idxs :: "int list"
  assumes ne: "idxs \<noteq> []"
    and n_def: "n = int (length idxs)"
    and cols_def: "cols = min 2 n"
    and rows_def: "rows = (n + cols - 1) div cols"
  shows "grids (new_calls s (fst (create_multiple_snapshots (Some idxs) save_dir levels s)))
           = [(rows, cols)]"
proof -
  define s2 where "s2 = emit [Subplots rows cols
                          (fst (figsize (mem_self s)) * cols div 2,
                           snd (figsize (mem_self s)) * rows div 2) (dpi (mem_self s))]
                    (makedirs save_dir s)"
  define axes where "axes = [0..<nat rows * nat cols]"
  note run = snapshots_run[OF ne n_def cols_def rows_def s2_def axes_def, of levels]
  have p2: "plot s2 = plot s @ [Subplots rows cols
                          (fst (figsize (mem_self s)) * cols div 2,
                           snd (figsize (mem_self s)) * rows div 2) (dpi (mem_self s))]"
    by (simp add: s2_def emit_def makedirs_def)
  have g2: "grids (new_calls s s2) = [(rows, cols)]"
    by (simp add: new_calls_def p2)
  have gcs: "grids (new_calls s (emit cs s2)) = [(rows, cols)]" if "scaled lo hi cs" for cs lo hi
    using that by (simp add: new_calls_def emit_def p2 grids_append scaled_def)
  have gfin: "grids (new_calls s (print msg (savefig p (emit (hs @ rest) (emit cs s2))))) = [(rows, cols)]"
    if "scaled lo hi cs" "grids hs = []" "grids rest = []" for cs lo hi msg p hs rest
    using that
    by (simp add: new_calls_def emit_def print_def savefig_def p2 grids_append scaled_def)
  show ?thesis
    unfolding run
    by (auto simp: g2 gcs gfin grids_hide Let_def split: sum.splits prod.splits
          dest!: snapshot_loop_effect')
qed

lemma contour_accepts_nonempty: "contour_accepts X Y Z \<Longrightarrow> \<exists>r \<in> set Z. r \<noteq> []"
  by (cases Z) (auto simp: contour_accepts_def)

lemma flat_nonempty: "g \<in> set f \<Longrightarrow> r \<in> set g \<Longrightarrow> r \<noteq> [] \<Longrightarrow> flat f \<noteq> []"
  by (auto simp: flat_def)

lemma sel_mem: "in_range xs i \<Longrightarrow> sel xs i \<in> set xs"
  by (auto simp: in_range_def sel_def)

lemma accepted_slice_nonempty:
  assumes "in_range f i" and "contour_accepts X Y (sel f i)"
  shows "flat f \<noteq> []"
proof -
  from contour_accepts_nonempty[OF assms(2)] obtain r where "r \<in> set (sel f i)" "r \<noteq> []"
    by blast
  with sel_mem[OF assms(1)] show ?thesis by (rule flat_nonempty)
qed

lemma snapshots_complete:
  fixes s :: state and idxs :: "int list"
  assumes ne: "idxs \<noteq> []"
    and n_def: "n = int (length idxs)"
    and cols_def: "cols = min 2 n"
    and rows_def: "rows = (n + cols - 1) div cols"
    and valid: "\<forall>i\<in>set idxs. in_range (mem_u s) i \<and> in_range (mem_t s) i \<and>
                         contour_accepts (mem_X s) (mem_Y s) (sel (mem_u s) i)"
  shows "snd (create_multiple_snapshots (Some idxs) save_dir levels s)
           = Inr [0..<nat rows * nat cols] \<and>
         hidden (new_calls s (fst (create_multiple_snapshots (Some idxs) save_dir levels s)))
           = [length idxs..<nat rows * nat cols] \<and>
         drawn_slices (new_calls s (fst (create_multiple_snapshots (Some idxs) save_dir levels s)))
           = concat (map (\<lambda>i. [sel (mem_u s) i, sel (mem_u s) i]) idxs)"
proof -
  define s2 where "s2 = emit [Subplots rows cols
                          (fst (figsize (mem_self s)) * cols div 2,
                           snd (figsize (mem_self s)) * rows div 2) (dpi (mem_self s))]
                    (makedirs save_dir s)"
  define axes where "axes = [0..<nat rows * nat cols]"
  note run = snapshots_run[OF ne n_def cols_def rows_def s2_def axes_def, of levels]
  have n1: "1 \<le> n" using ne unfolding n_def by (cases idxs) simp_all
  have "n \<le> rows * cols" unfolding rows_def cols_def by (rule rows_fit[OF n1])
  moreover have "0 \<le> rows" "0 \<le> cols"
    using rows_cases[OF n1] unfolding cols_def rows_def by auto
  ultimately have fit: "length idxs \<le> nat rows * nat cols"
    unfolding n_def by (metis nat_int nat_mono nat_mult_distrib)
  have la: "length axes = nat rows * nat cols" by (simp add: axes_def)
  have ane: "axes \<noteq> []" using fit ne la by (cases axes) auto
  have p2: "plot s2 = plot s @ [Subplots rows cols
                          (fst (figsize (mem_self s)) * cols div 2,
                           snd (figsize (mem_self s)) * rows div 2) (dpi (mem_self s))]"
    and m2: "mem_u s2 = mem_u s" "mem_t s2 = mem_t s" "mem_X s2 = mem_X s" "mem_Y s2 = mem_Y s"
    by (simp_all add: s2_def emit_def makedirs_def)
  have "hd idxs \<in> set idxs" using ne by simp
  with valid have "in_range (mem_u s) (hd idxs)"
    "contour_accepts (mem_X s) (mem_Y s) (sel (mem_u s) (hd idxs))" by blast+
  then have nonempty: "flat (mem_u s) \<noteq> []" by (rule accepted_slice_nonempty)
  obtain vmin where vmin: "amin (mem_u s) = Inr vmin" using amin_Inr[OF nonempty] by blast
  obtain vmax where vmax: "amax (mem_u s) = Inr vmax" using amax_Inr[OF nonempty] by blast
  have "\<exists>cs. snapshot_loop (enumerate 0 idxs) n axes levels vmin vmax s2 = (emit cs s2, Inr ()) \<and>
           scaled vmin vmax cs \<and>
           drawn_slices cs = concat (map (\<lambda>i. [sel (mem_u s2) i, sel (mem_u s2) i]) idxs)"
    by (rule snapshot_loop_ok) (use valid fit la ane in \<open>simp_all add: m2\<close>)
  then obtain cs where cs:
    "snapshot_loop (enumerate 0 idxs) n axes levels vmin vmax s2 = (emit cs s2, Inr ())"
    "scaled vmin vmax cs"
    "drawn_slices cs = concat (map (\<lambda>i. [sel (mem_u s) i, sel (mem_u s) i]) idxs)"
    unfolding m2 by blast
  have hid: "map (\<lambda>i. axes ! i) [length idxs..<length axes] = [length idxs..<nat rows * nat cols]"
    unfolding la unfolding axes_def using fit by (rule map_nth_upt)
  have dh: "drawn_slices (map (\<lambda>i. SetVisible (axes ! i) False) xs) = []" for xs
    by (induction xs) auto
  show ?thesis
    using cs(2,3) hid
    by (simp add: run vmin vmax cs(1) Let_def new_calls_def emit_def print_def savefig_def p2
          hidden_append hidden_hide drawn_slices_append dh scaled_def axes_def[symmetric])
qed

subsection \<open>Unfolding on concrete states\<close>

lemmas run_simps = create_animated_contour_def create_multiple_snapshots_def create_static_contour_def
  animate_def save_animation_def contourf_def contour_def contour_accepts_def has_shape2_def
  grid_X_def grid_Y_def subplots_def subplots_axes_def axes_list_def py_index_def py_floordiv_def
  amin_def amax_def flat_def emit_def print_def savefig_def makedirs_def path_join_def truthy_def
  default_snapshot_times_def new_calls_def global_scale_def fresh_state_def demo_state_def
  PDEVisualizer_def setup_colormap_def Let_def in_range_def upt_conv_Cons enumerate_eq_zip


section \<open>Properties\<close>

text \<open>
  C1: the colour scale of the animation and of the snapshot figure. Every filled contour
  that \<open>create_animated_contour\<close> draws while it runs, every filled contour that the
  frame callback of the animation it returns draws later, for any frame number and in
  any later state, and every filled contour that \<open>create_multiple_snapshots\<close> draws in
  a subplot, for any list of snapshot indices, is given as \<open>vmin\<close> and \<open>vmax\<close> the
  minimum and the maximum over all elements of the field tensor as it was when the
  operation was called.
\<close>

theorem global_color_scale:
  "(\<forall>sc \<in> set (color_scales (new_calls s
        (fst (create_animated_contour title save_gif gif_name levels interval s)))).
      sc = global_scale (mem_u s)) \<and>
   (\<forall>a frame s'. snd (create_animated_contour title save_gif gif_name levels interval s) = Inr a \<longrightarrow>
      (\<forall>sc \<in> set (color_scales (new_calls s' (fst (animate a frame s')))).
         sc = global_scale (mem_u s))) \<and>
   (\<forall>sc \<in> set (color_scales (new_calls s
        (fst (create_multiple_snapshots snapshot_times save_dir levels s)))).
      sc = global_scale (mem_u s))"
proof (intro conjI allI impI)
  obtain cs where cs: "plot (fst (create_animated_contour title save_gif gif_name levels interval s)) = plot s @ cs"
    "list_all (\<lambda>sc. sc = global_scale (mem_u s)) (color_scales cs)"
    using animated_effect by blast
  show "\<forall>sc \<in> set (color_scales (new_calls s
        (fst (create_animated_contour title save_gif gif_name levels interval s)))).
      sc = global_scale (mem_u s)"
    using cs by (simp add: new_calls_append list_all_iff)
next
  obtain cs where cs: "plot (fst (create_multiple_snapshots snapshot_times save_dir levels s)) = plot s @ cs"
    "list_all (\<lambda>sc. sc = global_scale (mem_u s)) (color_scales cs)"
    using snapshots_effect by blast
  show "\<forall>sc \<in> set (color_scales (new_calls s
        (fst (create_multiple_snapshots snapshot_times save_dir levels s)))).
      sc = global_scale (mem_u s)"
    using cs by (simp add: new_calls_append list_all_iff)
next
  fix a frame s'
  assume r: "snd (create_animated_contour title save_gif gif_name levels interval s) = Inr a"
  have lo: "amin (mem_u s) = Inr (an_vmin a)" and hi: "amax (mem_u s) = Inr (an_vmax a)"
    using r
    by (auto simp: create_animated_contour_def subplots_def subplots_axes_def contourf_def
          Let_def emit_def
        split: sum.splits prod.splits axes_val.splits if_splits)
  obtain cs where cs: "fst (animate a frame s') = emit cs s'" "scaled (an_vmin a) (an_vmax a) cs"
    using animate_effect'[of a frame s'] by (metis prod.collapse)
  have "new_calls s' (fst (animate a frame s')) = cs"
    using cs(1) by (simp add: new_calls_def emit_def)
  then show "\<forall>sc \<in> set (color_scales (new_calls s' (fst (animate a frame s')))).
         sc = global_scale (mem_u s)"
    using scaled_global[OF cs(2) lo hi] by (simp add: list_all_iff)
qed

text \<open>
  On the two-step field of \<open>demo_state\<close> the first slice alone has the extremes 1 and
  2; the frames and the subplot drawn from that slice still carry the limits 0 and 5 of
  the whole field.
\<close>

theorem global_color_scale_witness:
  "(Some 0, Some 5) \<in> set (color_scales (new_calls demo_state
      (fst (create_animated_contour ''Dynamic PDE Evolution'' True ''pde_evolution.gif'' 20 200
              demo_state)))) \<and>
   (Some 0, Some 5) \<in> set (color_scales (new_calls demo_state
      (fst (create_multiple_snapshots (Some [0]) ''snapshots'' 20 demo_state)))) \<and>
   drawn_slices (new_calls demo_state
      (fst (create_multiple_snapshots (Some [0]) ''snapshots'' 20 demo_state)))
     = [[[1, 2], [2, 1]], [[1, 2], [2, 1]]] \<and>
   (\<exists>a. snd (create_animated_contour ''Dynamic PDE Evolution'' True ''pde_evolution.gif'' 20 200
              demo_state) = Inr a \<and>
        (Some 0, Some 5) \<in> set (color_scales (new_calls demo_state
           (fst (animate a 0 demo_state))))) \<and>
   global_scale (mem_u demo_state) = (Some 0, Some 5)"
proof -
  let ?anim = "create_animated_contour ''Dynamic PDE Evolution'' True ''pde_evolution.gif'' 20 200
                 demo_state"
  let ?snap = "create_multiple_snapshots (Some [0]) ''snapshots'' 20 demo_state"
  let ?a = "\<lparr>an_ax = 0, an_title = ''Dynamic PDE Evolution'', an_levels = 20,
             an_vmin = 0, an_vmax = 5, an_frames = 2, an_interval = 200\<rparr>"
  have e1: "color_scales (new_calls demo_state (fst ?anim))
              = [(Some 0, Some 5), (Some 0, Some 5), (Some 0, Some 5), (Some 0, Some 5)]"
    by (simp add: run_simps)
  have e2: "color_scales (new_calls demo_state (fst ?snap)) = [(Some 0, Some 5)]"
    by (simp add: run_simps)
  have e3: "drawn_slices (new_calls demo_state (fst ?snap)) = [[[1, 2], [2, 1]], [[1, 2], [2, 1]]]"
    by (simp add: run_simps)
  have e4: "snd ?anim = Inr ?a"
    by (simp add: run_simps)
  have e5: "color_scales (new_calls demo_state (fst (animate ?a 0 demo_state)))
              = [(Some 0, Some 5)]"
    by (simp add: run_simps)
  note inst = global_color_scale [where s = demo_state and title = "''Dynamic PDE Evolution''"
      and save_gif = True and gif_name = "''pde_evolution.gif''" and levels = 20
      and interval = 200 and snapshot_times = "Some [0]" and save_dir = "''snapshots''"]
  from inst have "\<forall>sc \<in> set (color_scales (new_calls demo_state (fst ?anim))).
                    sc = global_scale (mem_u demo_state)"
    by (rule conjunct1)
  with e1 have g: "global_scale (mem_u demo_state) = (Some 0, Some 5)"
    by simp
  from e1 e2 e3 e4 e5 g show ?thesis
    by (intro conjI exI[of _ ?a]) simp_all
qed

text \<open>
  C2: shapes of the sample data. For integers \<open>nx\<close>, \<open>ny\<close>, \<open>nt\<close> of at least 1,
  \<open>generate_sample_data\<close> returns (it raises nothing), \<open>X\<close> and \<open>Y\<close> have shape
  \<open>(ny, nx)\<close>, the time vector has \<open>nt\<close> elements and the field has shape
  \<open>(nt, ny, nx)\<close>.
\<close>

theorem generate_sample_data_shapes:
  assumes "1 \<le> nx" and "1 \<le> ny" and "1 \<le> nt"
  shows "\<exists>X Y t u. generate_sample_data self nx ny nt = Inr (X, Y, t, u) \<and>
           has_shape2 (nat ny) (nat nx) X \<and> has_shape2 (nat ny) (nat nx) Y \<and>
           length t = nat nt \<and> has_shape3 (nat nt) (nat ny) (nat nx) u"
proof -
  from assms have nn: "0 \<le> nx" "0 \<le> ny" "0 \<le> nt" by simp_all
  from generate_sample_data_Inr[OF nn, of self] obtain x y t where
    x: "linspace 0 (2 * pi) nx = Inr x" and y: "linspace 0 (2 * pi) ny = Inr y" and
    t: "linspace 0 2 nt = Inr t" and
    g: "generate_sample_data self nx ny nt =
          Inr (fst (meshgrid x y), snd (meshgrid x y), t,
               fill_loop (enumerate 0 t) (fst (meshgrid x y)) (snd (meshgrid x y))
                 (zeros3 (nat nt) (nat ny) (nat nx)))"
    by blast
  let ?X = "fst (meshgrid x y)" and ?Y = "snd (meshgrid x y)"
  let ?z = "zeros3 (nat nt) (nat ny) (nat nx)"
  let ?u = "fill_loop (enumerate 0 t) ?X ?Y ?z"
  have lx: "length x = nat nx" and ly: "length y = nat ny" and lt: "length t = nat nt"
    using x y t by (simp_all add: length_linspace)
  have sh: "has_shape2 (nat ny) (nat nx) ?X \<and> has_shape2 (nat ny) (nat nx) ?Y"
    using meshgrid_shape[of x y ?X ?Y] lx ly by simp
  have lz: "length ?z = nat nt" by (simp add: zeros3_def)
  have lu: "length ?u = nat nt" by (simp add: length_fill_loop lz)
  have "has_shape2 (nat ny) (nat nx) (?u ! i)" if "i < nat nt" for i
    using fill_loop_all[of t ?z i ?X ?Y] that lt lz sh by (simp add: wave_shape)
  then have "has_shape3 (nat nt) (nat ny) (nat nx) ?u"
    using lu by (simp add: has_shape3_def list_all_length)
  with g sh lt show ?thesis by blast
qed

theorem generate_sample_data_shapes_witness:
  "(1::int) \<le> 3 \<and> (1::int) \<le> 2 \<and> (1::int) \<le> 4 \<and>
   (\<exists>X Y t u. generate_sample_data (PDEVisualizer (12, 8) 100) 3 2 4 = Inr (X, Y, t, u) \<and>
      has_shape2 2 3 X \<and> has_shape2 2 3 Y \<and> length t = 4 \<and> has_shape3 4 2 3 u)"
  using generate_sample_data_shapes [of 3 2 4 "PDEVisualizer (12, 8) 100"] by simp

text \<open>
  C3: values of the sample data. \<open>generate_sample_data\<close> returns, and at every position
  \<open>(i, j, k)\<close> of the field: \<open>X[j][k]\<close> is point \<open>k\<close> of \<open>nx\<close> equally spaced
  points from 0 to \<open>2\<pi>\<close>, \<open>Y[j][k]\<close> is point \<open>j\<close> of \<open>ny\<close> such points,
  \<open>t[i]\<close> is point \<open>i\<close> of \<open>nt\<close> equally spaced points from 0 to 2 (a single point
  is the left end), and the field value is
  \<open>sin(X + t) cos(Y + 0.5 t) exp(-0.1 t) + 0.3 sin(2 X - t) sin(Y + t)\<close> at that
  position and time.
\<close>

theorem generate_sample_data_values:
  assumes "i < nat nt" and "j < nat ny" and "k < nat nx"
  shows "\<exists>X Y t u. generate_sample_data self nx ny nt = Inr (X, Y, t, u) \<and>
           X ! j ! k = (if nx = 1 then 0 else real k * (2 * pi / real_of_int (nx - 1))) \<and>
           Y ! j ! k = (if ny = 1 then 0 else real j * (2 * pi / real_of_int (ny - 1))) \<and>
           t ! i = (if nt = 1 then 0 else real i * (2 / real_of_int (nt - 1))) \<and>
           u ! i ! j ! k =
             sin (X ! j ! k + t ! i) * cos (Y ! j ! k + 0.5 * t ! i) * exp (- 0.1 * t ! i)
             + 0.3 * sin (2 * (X ! j ! k) - t ! i) * sin (Y ! j ! k + t ! i)"
proof -
  from assms have nn: "0 \<le> nx" "0 \<le> ny" "0 \<le> nt" by simp_all
  from generate_sample_data_Inr[OF nn, of self] obtain x y t where
    x: "linspace 0 (2 * pi) nx = Inr x" and y: "linspace 0 (2 * pi) ny = Inr y" and
    t: "linspace 0 2 nt = Inr t" and
    g: "generate_sample_data self nx ny nt =
          Inr (fst (meshgrid x y), snd (meshgrid x y), t,
               fill_loop (enumerate 0 t) (fst (meshgrid x y)) (snd (meshgrid x y))
                 (zeros3 (nat nt) (nat ny) (nat nx)))"
    by blast
  let ?X = "fst (meshgrid x y)" and ?Y = "snd (meshgrid x y)"
  let ?z = "zeros3 (nat nt) (nat ny) (nat nx)"
  let ?u = "fill_loop (enumerate 0 t) ?X ?Y ?z"
  have lx: "length x = nat nx" and ly: "length y = nat ny" and lt: "length t = nat nt"
    using x y t by (simp_all add: length_linspace)
  have sh: "has_shape2 (nat ny) (nat nx) ?X" "has_shape2 (nat ny) (nat nx) ?Y"
    using meshgrid_shape[of x y ?X ?Y] lx ly by simp_all
  have lz: "length ?z = nat nt" by (simp add: zeros3_def)
  have ui: "?u ! i = wave ?X ?Y (t ! i)"
    using fill_loop_all[of t ?z i ?X ?Y] assms(1) lt lz by simp
  have uv: "?u ! i ! j ! k =
             sin (?X ! j ! k + t ! i) * cos (?Y ! j ! k + 0.5 * t ! i) * exp (- 0.1 * t ! i)
             + 0.3 * sin (2 * (?X ! j ! k) - t ! i) * sin (?Y ! j ! k + t ! i)"
    unfolding ui using wave_nth[OF sh assms(2,3)] .
  have XY: "?X ! j ! k = x ! k \<and> ?Y ! j ! k = y ! j"
    using meshgrid_nth[of x y ?X ?Y j k] assms lx ly by simp
  have xv: "x ! k = (if nx = 1 then 0 else real k * (2 * pi / real_of_int (nx - 1)))"
    using linspace_nth[OF x assms(3)] by simp
  have yv: "y ! j = (if ny = 1 then 0 else real j * (2 * pi / real_of_int (ny - 1)))"
    using linspace_nth[OF y assms(2)] by simp
  have tv: "t ! i = (if nt = 1 then 0 else real i * (2 / real_of_int (nt - 1)))"
    using linspace_nth[OF t assms(1)] by simp
  show ?thesis
    using g uv XY xv yv tv by (intro exI conjI) (assumption | simp)+
qed

theorem generate_sample_data_values_witness:
  "(1::nat) < nat 2 \<and>
   (\<exists>X Y t u. generate_sample_data (PDEVisualizer (12, 8) 100) 2 2 2 = Inr (X, Y, t, u) \<and>
      X ! 1 ! 1 = 2 * pi \<and> Y ! 1 ! 1 = 2 * pi \<and> t ! 1 = 2 \<and>
      u ! 1 ! 1 ! 1 =
        sin (X ! 1 ! 1 + t ! 1) * cos (Y ! 1 ! 1 + 0.5 * t ! 1) * exp (- 0.1 * t ! 1)
        + 0.3 * sin (2 * (X ! 1 ! 1) - t ! 1) * sin (Y ! 1 ! 1 + t ! 1))"
  using generate_sample_data_values [of 1 2 1 2 1 2 "PDEVisualizer (12, 8) 100"] by simp


text \<open>
  C4: default snapshot selection. Called without a list of indices,
  \<open>create_multiple_snapshots\<close> does exactly what it does for the four indices
  \<open>0\<close>, \<open>nt // 3\<close>, \<open>2 * nt // 3\<close> and \<open>nt - 1\<close>, where \<open>nt\<close> is the length of the
  time vector; for \<open>nt = 25\<close> these are 0, 8, 16 and 24. When the field has one slice per
  time value, is not empty, and the engine accepts its slices, the call returns and the
  slices it draws are those four, in that order (each one as filled contour and as
  contour lines).
\<close>

theorem default_snapshot_selection:
  "create_multiple_snapshots None save_dir levels s
     = create_multiple_snapshots
         (Some [0, int (length (mem_t s)) div 3, 2 * int (length (mem_t s)) div 3,
                int (length (mem_t s)) - 1]) save_dir levels s \<and>
   (length (mem_t s) = 25 \<longrightarrow>
      create_multiple_snapshots None save_dir levels s
        = create_multiple_snapshots (Some [0, 8, 16, 24]) save_dir levels s) \<and>
   (length (mem_u s) = length (mem_t s) \<and> flat (mem_u s) \<noteq> [] \<and>
    list_all (contour_accepts (mem_X s) (mem_Y s)) (mem_u s) \<longrightarrow>
      (\<exists>axes. snd (create_multiple_snapshots None save_dir levels s) = Inr axes) \<and>
      drawn_slices (new_calls s (fst (create_multiple_snapshots None save_dir levels s)))
        = [mem_u s ! 0, mem_u s ! 0,
           mem_u s ! (length (mem_t s) div 3), mem_u s ! (length (mem_t s) div 3),
           mem_u s ! (2 * length (mem_t s) div 3), mem_u s ! (2 * length (mem_t s) div 3),
           mem_u s ! (length (mem_t s) - 1), mem_u s ! (length (mem_t s) - 1)])"
proof (intro conjI impI)
  let ?nt = "int (length (mem_t s))"
  let ?idxs = "[0, ?nt div 3, 2 * ?nt div 3, ?nt - 1]"
  show eq: "create_multiple_snapshots None save_dir levels s
              = create_multiple_snapshots (Some ?idxs) save_dir levels s"
    by (simp add: create_multiple_snapshots_def default_snapshot_times_def)
  show "create_multiple_snapshots None save_dir levels s
          = create_multiple_snapshots (Some [0, 8, 16, 24]) save_dir levels s"
    if "length (mem_t s) = 25"
    using that by (simp add: create_multiple_snapshots_def default_snapshot_times_def)
  assume a: "length (mem_u s) = length (mem_t s) \<and> flat (mem_u s) \<noteq> [] \<and>
             list_all (contour_accepts (mem_X s) (mem_Y s)) (mem_u s)"
  then have pos: "0 < length (mem_t s)"
    by (cases "mem_u s") (auto simp: flat_def)
  have ar: "0 \<le> ?nt div 3" "?nt div 3 < ?nt" "0 \<le> 2 * ?nt div 3" "2 * ?nt div 3 < ?nt"
    using pos by linarith+
  have rng: "\<forall>i\<in>set ?idxs. in_range (mem_u s) i \<and> in_range (mem_t s) i"
    using a pos ar by (simp add: in_range_def)
  have acc: "contour_accepts (mem_X s) (mem_Y s) (sel (mem_u s) i)" if "in_range (mem_u s) i" for i
    using a sel_mem[OF that] by (simp add: list_all_iff)
  from rng acc have valid: "\<forall>i\<in>set ?idxs. in_range (mem_u s) i \<and> in_range (mem_t s) i \<and>
                         contour_accepts (mem_X s) (mem_Y s) (sel (mem_u s) i)"
    by blast
  note c = snapshots_complete[OF _ refl refl refl valid, of save_dir levels]
  have s0: "sel (mem_u s) 0 = mem_u s ! 0"
    by (simp add: sel_def)
  have n1: "nat (?nt div 3) = length (mem_t s) div 3"
    by (simp add: nat_div_distrib)
  have n2: "nat (2 * ?nt div 3) = 2 * length (mem_t s) div 3"
    by (simp add: nat_div_distrib nat_mult_distrib)
  have s1: "sel (mem_u s) (?nt div 3) = mem_u s ! (length (mem_t s) div 3)"
    unfolding sel_def using ar(1) by (simp only: n1 not_less[symmetric] if_False)
  have s2: "sel (mem_u s) (2 * ?nt div 3) = mem_u s ! (2 * length (mem_t s) div 3)"
    unfolding sel_def using ar(3) by (simp only: n2 not_less[symmetric] if_False)
  have s3: "sel (mem_u s) (?nt - 1) = mem_u s ! (length (mem_t s) - 1)"
    using pos by (simp add: sel_def nat_diff_distrib')
  show "\<exists>axes. snd (create_multiple_snapshots None save_dir levels s) = Inr axes"
    unfolding eq using c by simp
  show "drawn_slices (new_calls s (fst (create_multiple_snapshots None save_dir levels s)))
        = [mem_u s ! 0, mem_u s ! 0,
           mem_u s ! (length (mem_t s) div 3), mem_u s ! (length (mem_t s) div 3),
           mem_u s ! (2 * length (mem_t s) div 3), mem_u s ! (2 * length (mem_t s) div 3),
           mem_u s ! (length (mem_t s) - 1), mem_u s ! (length (mem_t s) - 1)]"
    unfolding eq using c s0 s1 s2 s3 by simp
qed

theorem default_snapshot_selection_witness:
  "length (mem_t main_state) = 25 \<and>
   length (mem_u main_state) = length (mem_t main_state) \<and> flat (mem_u main_state) \<noteq> [] \<and>
   list_all (contour_accepts (mem_X main_state) (mem_Y main_state)) (mem_u main_state) \<and>
   create_multiple_snapshots None ''snapshots'' 20 main_state
     = create_multiple_snapshots (Some [0, 8, 16, 24]) ''snapshots'' 20 main_state \<and>
   drawn_slices (new_calls main_state
      (fst (create_multiple_snapshots None ''snapshots'' 20 main_state)))
     = [[[0, 0], [0, 0]], [[0, 0], [0, 0]], [[8, 8], [8, 8]], [[8, 8], [8, 8]],
        [[16, 16], [16, 16]], [[16, 16], [16, 16]], [[24, 24], [24, 24]], [[24, 24], [24, 24]]]"
proof -
  have l: "length (mem_t main_state) = 25" "length (mem_u main_state) = 25"
    by (simp_all add: main_state_def fresh_state_def)
  have "[[0, 0], [0, 0]] \<in> set (mem_u main_state)"
    by (simp add: main_state_def fresh_state_def image_iff)
  then have ne: "flat (mem_u main_state) \<noteq> []"
    by (rule flat_nonempty[of _ _ "[0, 0]"]) simp_all
  have acc: "list_all (contour_accepts (mem_X main_state) (mem_Y main_state)) (mem_u main_state)"
    by (simp add: main_state_def fresh_state_def list_all_iff contour_accepts_def has_shape2_def
          grid_X_def grid_Y_def)
  have u: "mem_u main_state ! 0 = [[0, 0], [0, 0]]" "mem_u main_state ! 8 = [[8, 8], [8, 8]]"
    "mem_u main_state ! 16 = [[16, 16], [16, 16]]" "mem_u main_state ! 24 = [[24, 24], [24, 24]]"
    by (simp_all add: main_state_def fresh_state_def)
  show ?thesis
    using default_snapshot_selection [of "''snapshots''" 20 main_state] l ne acc u
    by auto
qed

text \<open>
  C5, as the code has it: layout of the snapshot figure. For every non-empty list of
  \<open>n\<close> snapshot indices the figure is made with one subplot grid of \<open>min(2, n)\<close> columns
  and \<open>ceil(n / columns)\<close> rows. The slots after the first \<open>n\<close> are hidden by a loop
  that comes after the drawing loop: when every index is valid for the field and the time
  vector and the engine accepts the slices, the call returns the \<open>rows * columns\<close> slots
  and sets invisible exactly the slots after the first \<open>n\<close>. Five such indices give 2
  columns, 3 rows and one hidden slot.
\<close>

theorem snapshot_grid_layout:
  assumes "idxs \<noteq> []"
  shows "grids (new_calls s (fst (create_multiple_snapshots (Some idxs) save_dir levels s)))
           = [(\<lceil>real (length idxs) / real (min 2 (length idxs))\<rceil>, int (min 2 (length idxs)))] \<and>
         ((\<forall>i\<in>set idxs. in_range (mem_u s) i \<and> in_range (mem_t s) i \<and>
                         contour_accepts (mem_X s) (mem_Y s) (sel (mem_u s) i)) \<longrightarrow>
            snd (create_multiple_snapshots (Some idxs) save_dir levels s)
              = Inr [0..<nat \<lceil>real (length idxs) / real (min 2 (length idxs))\<rceil>
                          * min 2 (length idxs)] \<and>
            hidden (new_calls s (fst (create_multiple_snapshots (Some idxs) save_dir levels s)))
              = [length idxs..<nat \<lceil>real (length idxs) / real (min 2 (length idxs))\<rceil>
                                  * min 2 (length idxs)])"
proof -
  define n where "n = int (length idxs)"
  define cols where "cols = min 2 n"
  define rows where "rows = (n + cols - 1) div cols"
  have n1: "1 \<le> length idxs" using assms by (cases idxs) simp_all
  have r: "rows = \<lceil>real (length idxs) / real (min 2 (length idxs))\<rceil>"
    unfolding rows_def cols_def n_def by (rule rows_ceiling[OF n1])
  have c: "cols = int (min 2 (length idxs))" "nat cols = min 2 (length idxs)"
    unfolding cols_def n_def by simp_all
  have "grids (new_calls s (fst (create_multiple_snapshots (Some idxs) save_dir levels s)))
          = [(rows, cols)]"
    by (rule snapshots_layout[OF assms n_def cols_def rows_def])
  moreover have "snd (create_multiple_snapshots (Some idxs) save_dir levels s)
              = Inr [0..<nat rows * nat cols] \<and>
            hidden (new_calls s (fst (create_multiple_snapshots (Some idxs) save_dir levels s)))
              = [length idxs..<nat rows * nat cols]"
    if "\<forall>i\<in>set idxs. in_range (mem_u s) i \<and> in_range (mem_t s) i \<and>
                         contour_accepts (mem_X s) (mem_Y s) (sel (mem_u s) i)"
    using snapshots_complete[OF assms n_def cols_def rows_def that, of save_dir levels]
    by blast
  ultimately show ?thesis by (simp add: r c)
qed

theorem snapshot_grid_layout_witness:
  "[0, 2, 4, 6, 9] \<noteq> ([] :: int list) \<and>
   list_all (\<lambda>i. in_range (mem_u ten_step_state) i \<and> in_range (mem_t ten_step_state) i \<and>
                 contour_accepts (mem_X ten_step_state) (mem_Y ten_step_state)
                   (sel (mem_u ten_step_state) i))
     [0, 2, 4, 6, 9] \<and>
   grids (new_calls ten_step_state
      (fst (create_multiple_snapshots (Some [0, 2, 4, 6, 9]) ''snapshots'' 20 ten_step_state)))
     = [(3, 2)] \<and>
   snd (create_multiple_snapshots (Some [0, 2, 4, 6, 9]) ''snapshots'' 20 ten_step_state)
     = Inr [0, 1, 2, 3, 4, 5] \<and>
   hidden (new_calls ten_step_state
      (fst (create_multiple_snapshots (Some [0, 2, 4, 6, 9]) ''snapshots'' 20 ten_step_state)))
     = [5]"
proof -
  have v: "\<forall>i\<in>set [0, 2, 4, 6, 9].
      in_range (mem_u ten_step_state) i \<and> in_range (mem_t ten_step_state) i \<and>
      contour_accepts (mem_X ten_step_state) (mem_Y ten_step_state)
        (sel (mem_u ten_step_state) i)"
    by (simp add: ten_step_state_def fresh_state_def in_range_def sel_def contour_accepts_def
          has_shape2_def grid_X_def grid_Y_def)
  have len: "length [0, 2, 4, 6, 9 :: int] = 5"
    by simp
  have ar: "\<lceil>real (5::nat) / real (min 2 (5::nat))\<rceil> = 3" "min 2 (5::nat) = 2"
    by simp_all
  have up: "[0..<nat 3 * 2] = [0, 1, 2, 3, 4, 5]" "[5..<nat 3 * 2] = [5]"
    by (simp_all add: upt_conv_Cons)
  have ne0: "[0, 2, 4, 6, 9] \<noteq> ([] :: int list)"
    by simp
  show ?thesis
    using snapshot_grid_layout [OF ne0, of ten_step_state "''snapshots''" 20,
        unfolded len ar] v ne0 up
    by (simp add: upt_conv_Cons)
qed

text \<open>
  The claim as stated covers every non-empty list. On the two-step field of
  \<open>demo_state\<close> the list \<open>[0, 1, 7]\<close> gets its 2 x 2 grid, the first two subplots are
  drawn, and \<open>u[7]\<close> raises IndexError in the drawing loop: the fourth slot, the one
  after the first three, is never hidden.
\<close>

theorem snapshot_grid_layout_counterexample:
  "[0, 1, 7] \<noteq> ([] :: int list) \<and>
   grids (new_calls demo_state
      (fst (create_multiple_snapshots (Some [0, 1, 7]) ''snapshots'' 20 demo_state)))
     = [(2, 2)] \<and>
   snd (create_multiple_snapshots (Some [0, 1, 7]) ''snapshots'' 20 demo_state)
     = Inl IndexError \<and>
   hidden (new_calls demo_state
      (fst (create_multiple_snapshots (Some [0, 1, 7]) ''snapshots'' 20 demo_state)))
     = [] \<and>
   hidden (new_calls demo_state
      (fst (create_multiple_snapshots (Some [0, 1, 7]) ''snapshots'' 20 demo_state)))
     \<noteq> [3]"
  by (simp add: run_simps)

text \<open>
  C6, as the code has it: a time index at or above \<open>nt\<close> that fits a signed 64-bit
  integer, or one below \<open>-nt\<close>, makes \<open>create_static_contour\<close> raise IndexError at the
  first read of \<open>u[time_idx]\<close>; no file is written, nothing is printed and no directory is
  made, whatever save path was given. (\<open>nt\<close> is the number of slices of the field.)
\<close>

theorem static_contour_index_error:
  assumes "int (length (mem_u s)) \<le> time_idx \<and> time_idx < 2 ^ 63 \<or>
           time_idx < - int (length (mem_u s))"
  shows "snd (create_static_contour time_idx title save_path levels s) = Inl IndexError \<and>
         fs_files (fst (create_static_contour time_idx title save_path levels s)) = fs_files s \<and>
         fs_dirs (fst (create_static_contour time_idx title save_path levels s)) = fs_dirs s \<and>
         console (fst (create_static_contour time_idx title save_path levels s)) = console s \<and>
         saved (new_calls s (fst (create_static_contour time_idx title save_path levels s))) = []"
proof -
  have "py_index (mem_u s) time_idx = Inl IndexError"
    using assms by (rule py_index_IndexError)
  then show ?thesis
    by (simp add: create_static_contour_def subplots_def subplots_axes_def emit_def new_calls_def)
qed

theorem static_contour_index_error_witness:
  "int (length (mem_u ten_step_state)) \<le> 15 \<and> (15 :: int) < 2 ^ 63 \<and>
   snd (create_static_contour 15 ''PDE Solution'' (Some ''static_contour.png'') 20
          ten_step_state) = Inl IndexError \<and>
   fs_files (fst (create_static_contour 15 ''PDE Solution'' (Some ''static_contour.png'') 20
          ten_step_state)) = {}"
  using static_contour_index_error
          [of ten_step_state 15 "''PDE Solution''" "Some ''static_contour.png''" 20]
  by (simp add: ten_step_state_def fresh_state_def)

text \<open>
  The claim as stated covers every index outside \<open>[0, nt)\<close>. The index \<open>-1\<close> is
  outside that range, yet on the two-step field of \<open>demo_state\<close>, whose slices are 2 x 2
  grids the engine draws, the call returns and writes the image file.
\<close>

theorem static_contour_index_error_counterexample:
  "\<not> (0 \<le> (- 1 :: int) \<and> (- 1 :: int) < int (length (mem_u demo_state))) \<and>
   contour_accepts (mem_X demo_state) (mem_Y demo_state) [[0, 5], [3, 4]] \<and>
   drawn_slices (new_calls demo_state
      (fst (create_static_contour (- 1) ''PDE Solution'' (Some ''static_contour.png'') 20
              demo_state))) = [[[0, 5], [3, 4]], [[0, 5], [3, 4]]] \<and>
   snd (create_static_contour (- 1) ''PDE Solution'' (Some ''static_contour.png'') 20
          demo_state) = Inr 0 \<and>
   ''static_contour.png'' \<in>
     fs_files (fst (create_static_contour (- 1) ''PDE Solution'' (Some ''static_contour.png'') 20
                      demo_state))"
  by (simp add: run_simps)

text \<open>
  C7: the rendering operations change none of the objects they are given. After
  \<open>create_static_contour\<close>, \<open>create_animated_contour\<close>, a later call of the animation's
  frame callback, and \<open>create_multiple_snapshots\<close>, whether they return or raise, the grid
  arrays \<open>X\<close> and \<open>Y\<close>, the time vector, the field tensor and the visualizer object
  (figure size, resolution, colormap) are what they were before.
\<close>

theorem rendering_leaves_objects:
  "same_objects s (fst (create_static_contour time_idx title save_path levels s)) \<and>
   same_objects s (fst (create_animated_contour title save_gif gif_name levels interval s)) \<and>
   same_objects s (fst (animate a frame s)) \<and>
   same_objects s (fst (create_multiple_snapshots snapshot_times save_dir levels s))"
proof (intro conjI)
  show "same_objects s (fst (create_static_contour time_idx title save_path levels s))"
    by (simp add: create_static_contour_def subplots_def subplots_axes_def contourf_def
        contour_def emit_def Let_def savefig_def print_def same_objects_def split: sum.splits)
  show "same_objects s (fst (create_animated_contour title save_gif gif_name levels interval s))"
    by (auto simp: create_animated_contour_def subplots_def subplots_axes_def contourf_def
          emit_def Let_def print_def same_objects_def
        split: sum.splits prod.splits dest!: save_animation_effect')
  show "same_objects s (fst (animate a frame s))"
    using animate_effect'[of a frame s] same_objects_emit by (metis prod.collapse)
  show "same_objects s (fst (create_multiple_snapshots snapshot_times save_dir levels s))"
    by (auto simp: create_multiple_snapshots_def subplots_def emit_def Let_def
        print_def savefig_def makedirs_def same_objects_def
        split: sum.splits prod.splits dest!: snapshot_loop_effect')
qed

text \<open>
  C9: negative time indices. For \<open>-nt \<le> time_idx \<le> -1\<close>, and a slice
  \<open>u[nt + time_idx]\<close> that the engine accepts, the call of \<open>create_static_contour\<close>
  returns: both contour calls draw that slice, and when a save path that is not empty is
  given, the image is written to it.
\<close>

theorem static_contour_negative_index:
  assumes "- int (length (mem_u s)) \<le> time_idx" and "time_idx \<le> - 1"
    and "contour_accepts (mem_X s) (mem_Y s) (mem_u s ! nat (int (length (mem_u s)) + time_idx))"
  shows "snd (create_static_contour time_idx title save_path levels s) = Inr 0 \<and>
         drawn_slices (new_calls s (fst (create_static_contour time_idx title save_path levels s)))
           = [mem_u s ! nat (int (length (mem_u s)) + time_idx),
              mem_u s ! nat (int (length (mem_u s)) + time_idx)] \<and>
         (\<forall>p. save_path = Some p \<and> p \<noteq> [] \<longrightarrow>
            p \<in> fs_files (fst (create_static_contour time_idx title save_path levels s)) \<and>
            saved (new_calls s (fst (create_static_contour time_idx title save_path levels s))) = [p])"
proof -
  have "py_index (mem_u s) time_idx = Inr (mem_u s ! nat (int (length (mem_u s)) + time_idx))"
    using assms(1,2) by (intro py_index_negative) simp_all
  then show ?thesis
    using assms(3)
    by (simp add: create_static_contour_def subplots_def subplots_axes_def contourf_def
        contour_def emit_def new_calls_def Let_def truthy_def savefig_def print_def)
qed

theorem static_contour_negative_index_witness:
  "- int (length (mem_u demo_state)) \<le> - 2 \<and> (- 2 :: int) \<le> - 1 \<and>
   contour_accepts (mem_X demo_state) (mem_Y demo_state) [[1, 2], [2, 1]] \<and>
   snd (create_static_contour (- 2) ''PDE Solution'' (Some ''first.png'') 20 demo_state) = Inr 0 \<and>
   drawn_slices (new_calls demo_state
      (fst (create_static_contour (- 2) ''PDE Solution'' (Some ''first.png'') 20 demo_state)))
     = [[[1, 2], [2, 1]], [[1, 2], [2, 1]]] \<and>
   ''first.png'' \<in>
     fs_files (fst (create_static_contour (- 2) ''PDE Solution'' (Some ''first.png'') 20
                      demo_state))"
  using static_contour_negative_index
          [of demo_state "- 2" "''PDE Solution''" "Some ''first.png''" 20]
  by (simp add: demo_state_def fresh_state_def contour_accepts_def has_shape2_def
        grid_X_def grid_Y_def)

text \<open>
  C10: an empty list of snapshot indices. \<open>create_multiple_snapshots\<close> first makes the
  output directory and then raises ZeroDivisionError when it computes the number of
  rows; the state it leaves is the one right after \<open>os.makedirs\<close>: the directory is
  there, no file has been written and the plotting engine has not been called.
\<close>

theorem empty_snapshot_list:
  "create_multiple_snapshots (Some []) save_dir levels s
     = (makedirs save_dir s, Inl ZeroDivisionError) \<and>
   fs_dirs (fst (create_multiple_snapshots (Some []) save_dir levels s))
     = insert save_dir (fs_dirs s) \<and>
   fs_files (fst (create_multiple_snapshots (Some []) save_dir levels s)) = fs_files s \<and>
   new_calls s (fst (create_multiple_snapshots (Some []) save_dir levels s)) = []"
  by (simp add: create_multiple_snapshots_def py_floordiv_def makedirs_def new_calls_def)

end
